theory Spec2Isabelle
  imports Main "HOL-Library.AList"
begin

section \<open>The job ledger: \<open>ThreadStore\<close> (lib/thread-store.ts)\<close>

text \<open>
  The ledger maps a job identifier to the state of the Slack thread that carries the job.
  The TypeScript class keeps a map from job identifiers to states (a JavaScript \<open>Map\<close>,
  insertion ordered) and an optional path of a JSON file, and rewrites that file in full
  after every mutation.
\<close>

datatype JobStatus = Started | InProgress | Completed | Failed

text \<open>
  \<open>interface ThreadState\<close>, with one more field: the command line driver reads and
  writes a progress handle through the store, and the declaration that carries it is not
  among the sources.
  Modelled from the spec: the field \<open>progressMessageTs\<close> is the spec's
  \<open>progressMessageHandle\<close>, "string (nullable): handle of the most recent coalescable
  reply, used for upsert".
\<close>

record ThreadState =
  jobId :: string
  channel :: string
  threadTs :: string
  title :: string
  status :: JobStatus
  createdAt :: string
  updatedAt :: string
  permalink :: "string option"
  progressMessageTs :: "string option"

text \<open>
  What \<open>readFileSync\<close> followed by \<open>JSON.parse\<close> can give for the state file: a parse
  failure, or the array of states that \<open>JSON.stringify\<close> wrote.
\<close>

datatype disk_file = Corrupt | Json "ThreadState list"

text \<open>
  The store object together with the file system it reads and writes: \<open>threads\<close> is the
  JavaScript \<open>Map\<close> in insertion order, \<open>persistPath\<close> the optional constructor
  argument, \<open>fs\<close> maps a path to the content of the file there (\<open>None\<close>: no such file).
\<close>

record ThreadStore =
  threads :: "(string \<times> ThreadState) list"
  persistPath :: "string option"
  fs :: "string \<Rightarrow> disk_file option"

text \<open>JavaScript truthiness of an optional string: \<open>undefined\<close> and \<open>""\<close> are falsy.\<close>

fun truthy :: "string option \<Rightarrow> bool" where
  "truthy None = False"
| "truthy (Some s) = (s \<noteq> [])"

text \<open>\<open>a || b\<close> on optional strings.\<close>

definition js_or :: "string option \<Rightarrow> string option \<Rightarrow> string option" where
  "js_or a b = (if truthy a then a else b)"

text \<open>
  \<open>loadFromDisk\<close>: nothing happens without a path or without a file; a file that does
  not parse leaves the store as it is; otherwise every parsed state is \<open>set\<close> under its
  own \<open>jobId\<close>, in the order of the array.
\<close>

definition loadFromDisk :: "ThreadStore \<Rightarrow> ThreadStore" where
  "loadFromDisk s =
     (case persistPath s of
        None \<Rightarrow> s
      | Some p \<Rightarrow>
          if p = [] then s
          else (case fs s p of
                  None \<Rightarrow> s
                | Some Corrupt \<Rightarrow> s
                | Some (Json parsed) \<Rightarrow>
                    s\<lparr>threads := fold (\<lambda>st m. AList.update (jobId st) st m) parsed (threads s)\<rparr>))"

text \<open>The constructor: an empty map, loaded from the file when a path is given.\<close>

definition ThreadStore_new :: "string option \<Rightarrow> (string \<Rightarrow> disk_file option) \<Rightarrow> ThreadStore" where
  "ThreadStore_new path fsys =
     (let s = \<lparr>threads = [], persistPath = path, fs = fsys\<rparr>
      in if truthy path then loadFromDisk s else s)"

text \<open>
  \<open>saveToDisk\<close>: without a path nothing is written; otherwise the values of the map, in
  insertion order, replace the content of the file. (A write that throws is swallowed
  by the source and leaves the file as it was; the model follows the successful write.)
\<close>

definition saveToDisk :: "ThreadStore \<Rightarrow> ThreadStore" where
  "saveToDisk s =
     (if truthy (persistPath s)
      then s\<lparr>fs := (fs s)(the (persistPath s) \<mapsto> Json (map snd (threads s)))\<rparr>
      else s)"

definition get :: "ThreadStore \<Rightarrow> string \<Rightarrow> ThreadState option" where
  "get s j = map_of (threads s) j"

text \<open>
  \<open>create\<close> does not look for an existing entry: it overwrites one under the same key.
  Here and below the argument \<open>now\<close> is the reading of the clock,
  \<open>new Date().toISOString()\<close>.
\<close>

definition create ::
  "string \<Rightarrow> string \<Rightarrow> string \<Rightarrow> string \<Rightarrow> string option \<Rightarrow> string \<Rightarrow> ThreadStore
     \<Rightarrow> ThreadState \<times> ThreadStore" where
  "create j ch ts ttl pl now s =
     (let st = \<lparr>jobId = j, channel = ch, threadTs = ts, title = ttl, status = Started,
                 createdAt = now, updatedAt = now, permalink = pl, progressMessageTs = None\<rparr>
      in (st, saveToDisk (s\<lparr>threads := AList.update j st (threads s)\<rparr>)))"

definition updateStatus :: "string \<Rightarrow> JobStatus \<Rightarrow> string \<Rightarrow> ThreadStore \<Rightarrow> bool \<times> ThreadStore" where
  "updateStatus j stat now s =
     (case get s j of
        None \<Rightarrow> (False, s)
      | Some st \<Rightarrow>
          (True, saveToDisk (s\<lparr>threads := AList.update j (st\<lparr>status := stat, updatedAt := now\<rparr>) (threads s)\<rparr>)))"

definition isTerminal :: "ThreadStore \<Rightarrow> string \<Rightarrow> bool" where
  "isTerminal s j =
     (case get s j of
        None \<Rightarrow> False
      | Some st \<Rightarrow> status st = Completed \<or> status st = Failed)"

text \<open>\<open>list()\<close>: the values of the map.\<close>

definition listStates :: "ThreadStore \<Rightarrow> ThreadState list" where
  "listStates s = map snd (threads s)"

text \<open>
  The four store methods that follow are called by the command line driver, but their
  bodies are not among the sources.
\<close>

text \<open>
  Modelled from the spec: \<open>updateThreadTs\<close> is the spec's \<open>updateThreadHandle(jobId,
  handle, permalink?)\<close>, "used to promote a placeholder (empty handle) job into a real
  thread. Persists." An unknown job is left alone, as in \<open>updateStatus\<close>.
\<close>

definition updateThreadTs :: "string \<Rightarrow> string \<Rightarrow> string option \<Rightarrow> ThreadStore \<Rightarrow> ThreadStore" where
  "updateThreadTs j ts pl s =
     (case get s j of
        None \<Rightarrow> s
      | Some st \<Rightarrow>
          saveToDisk (s\<lparr>threads := AList.update j (st\<lparr>threadTs := ts, permalink := pl\<rparr>) (threads s)\<rparr>))"

text \<open>
  Modelled from the spec: \<open>getProgressMessageTs\<close> reads the \<open>progressMessageHandle\<close> of
  the job's state, absent for an unknown job.
\<close>

definition getProgressMessageTs :: "ThreadStore \<Rightarrow> string \<Rightarrow> string option" where
  "getProgressMessageTs s j =
     (case get s j of None \<Rightarrow> None | Some st \<Rightarrow> progressMessageTs st)"

text \<open>
  Modelled from the spec: \<open>updateProgressMessageTs\<close> is the spec's
  \<open>updateProgressMessageHandle(jobId, handle)\<close>, "Persists."
\<close>

definition updateProgressMessageTs :: "string \<Rightarrow> string \<Rightarrow> ThreadStore \<Rightarrow> ThreadStore" where
  "updateProgressMessageTs j ts s =
     (case get s j of
        None \<Rightarrow> s
      | Some st \<Rightarrow>
          saveToDisk (s\<lparr>threads := AList.update j (st\<lparr>progressMessageTs := Some ts\<rparr>) (threads s)\<rparr>))"

text \<open>
  Modelled from the spec: \<open>clearProgressMessageTs\<close> is the spec's
  \<open>clearProgressMessageHandle(jobId)\<close>, "Persists."
\<close>

definition clearProgressMessageTs :: "string \<Rightarrow> ThreadStore \<Rightarrow> ThreadStore" where
  "clearProgressMessageTs j s =
     (case get s j of
        None \<Rightarrow> s
      | Some st \<Rightarrow>
          saveToDisk (s\<lparr>threads := AList.update j (st\<lparr>progressMessageTs := None\<rparr>) (threads s)\<rparr>))"

text \<open>
  Every entry of the map sits under its own \<open>jobId\<close>, and no key occurs twice: this is
  what \<open>create\<close> and \<open>loadFromDisk\<close> establish and every mutator keeps.
\<close>

definition keyed :: "(string \<times> ThreadState) list \<Rightarrow> bool" where
  "keyed al = (distinct (map fst al) \<and> list_all (\<lambda>(k, st). jobId st = k) al)"


section \<open>The conversation channel: \<open>SlackClient\<close> (lib/slack-client.ts)\<close>

datatype level = Info | Warn | Debug

text \<open>
  What the client asks of the Slack Web API, recorded at the level of the client's own
  methods with the arguments the engine passes (the rendering of the text, with prefix
  and mention string, is left out). \<open>ParentMessage\<close> is a new top-level message; the
  others are replies in the thread \<open>threadTs\<close> of \<open>channel\<close>.
  \<open>EditReply\<close> and \<open>EditWaiting\<close> rewrite the existing reply whose handle is their
  last argument instead of posting a new one.
\<close>

datatype slack_call =
    ParentMessage string string "(string \<times> string) list option" bool
  | ThreadReply string string string level bool
  | EditReply string string string level bool string
  | CompleteMessage string string string "string option" "string list option" bool
  | FailMessage string string string string "string option" bool
  | WaitingMessage string string string string bool
  | EditWaiting string string string string bool string

fun is_parent :: "slack_call \<Rightarrow> bool" where
  "is_parent (ParentMessage _ _ _ _) = True"
| "is_parent _ = False"

fun is_edit :: "slack_call \<Rightarrow> bool" where
  "is_edit (EditReply _ _ _ _ _ _) = True"
| "is_edit (EditWaiting _ _ _ _ _ _) = True"
| "is_edit _ = False"

text \<open>\<open>interface PostResult\<close> and \<open>interface ReplyResult\<close>: the answers of the platform.\<close>

record PostResult =
  p_ok :: bool
  p_channel :: string
  p_ts :: string
  p_permalink :: "string option"

record ReplyResult =
  r_ok :: bool
  r_ts :: "string option"

text \<open>
  \<open>interface WaitingNotification\<close>. The timer handle \<open>timeout\<close> is represented by what
  its callback closes over (channel and thread) and by its delay in milliseconds; an
  entry is in the map exactly as long as its timer has not been cleared.
\<close>

record WaitingNotification =
  wn_jobId :: string
  wn_channel :: string
  wn_threadTs :: string
  wn_delay :: nat
  notified :: bool

record SlackClient =
  defaultChannel :: string
  waitingNotifications :: "(string \<times> WaitingNotification) list"
  sent :: "slack_call list"

definition defaultWaitingTimeoutMs :: nat where
  "defaultWaitingTimeoutMs = 30000"

text \<open>
  The text of the inactivity notice. The source's literal is Japanese ("processing is
  paused; it may be waiting for a permission check or for user input").
\<close>

definition stalledNotice :: string where
  "stalledNotice = ''processing is paused (possibly waiting for permission or user input)''"

definition getDefaultChannel :: "SlackClient \<Rightarrow> string" where
  "getDefaultChannel c = defaultChannel c"

text \<open>
  Each posting method sends one request and returns the platform's answer, which is an
  input of the model (\<open>res\<close>).
\<close>

definition postParentMessage ::
  "string \<Rightarrow> string \<Rightarrow> (string \<times> string) list option \<Rightarrow> bool \<Rightarrow> PostResult \<Rightarrow> SlackClient
     \<Rightarrow> PostResult \<times> SlackClient" where
  "postParentMessage ch ttl meta mention res c =
     (res, c\<lparr>sent := sent c @ [ParentMessage ch ttl meta mention]\<rparr>)"

definition postThreadReply ::
  "string \<Rightarrow> string \<Rightarrow> string \<Rightarrow> level \<Rightarrow> bool \<Rightarrow> ReplyResult \<Rightarrow> SlackClient
     \<Rightarrow> ReplyResult \<times> SlackClient" where
  "postThreadReply ch ts msg lvl mention res c =
     (res, c\<lparr>sent := sent c @ [ThreadReply ch ts msg lvl mention]\<rparr>)"

definition postComplete ::
  "string \<Rightarrow> string \<Rightarrow> string \<Rightarrow> string option \<Rightarrow> string list option \<Rightarrow> bool \<Rightarrow> ReplyResult
     \<Rightarrow> SlackClient \<Rightarrow> ReplyResult \<times> SlackClient" where
  "postComplete ch ts ttl summary suggestions mention res c =
     (res, c\<lparr>sent := sent c @ [CompleteMessage ch ts ttl summary suggestions mention]\<rparr>)"

definition postFail ::
  "string \<Rightarrow> string \<Rightarrow> string \<Rightarrow> string \<Rightarrow> string option \<Rightarrow> bool \<Rightarrow> ReplyResult
     \<Rightarrow> SlackClient \<Rightarrow> ReplyResult \<times> SlackClient" where
  "postFail ch ts ttl err logs mention res c =
     (res, c\<lparr>sent := sent c @ [FailMessage ch ts ttl err logs mention]\<rparr>)"

definition postWaiting ::
  "string \<Rightarrow> string \<Rightarrow> string \<Rightarrow> string \<Rightarrow> bool \<Rightarrow> ReplyResult \<Rightarrow> SlackClient
     \<Rightarrow> ReplyResult \<times> SlackClient" where
  "postWaiting ch ts ttl reason mention res c =
     (res, c\<lparr>sent := sent c @ [WaitingMessage ch ts ttl reason mention]\<rparr>)"

text \<open>
  The command line driver calls \<open>upsertThreadReply\<close>, and \<open>postWaiting\<close> with a sixth
  argument (the handle of an existing reply); neither body is among the sources.
\<close>

text \<open>
  Modelled from the spec: \<open>upsertThreadReply\<close> is the spec's \<open>upsertReply(channel,
  handle, text, mention, existingReplyHandle?)\<close>, which "posts if existingReplyHandle
  absent, edits in place otherwise".
\<close>

definition upsertThreadReply ::
  "string \<Rightarrow> string \<Rightarrow> string \<Rightarrow> level \<Rightarrow> bool \<Rightarrow> string option \<Rightarrow> ReplyResult \<Rightarrow> SlackClient
     \<Rightarrow> ReplyResult \<times> SlackClient" where
  "upsertThreadReply ch ts msg lvl mention existing res c =
     (case existing of
        None \<Rightarrow> (res, c\<lparr>sent := sent c @ [ThreadReply ch ts msg lvl mention]\<rparr>)
      | Some e \<Rightarrow> (res, c\<lparr>sent := sent c @ [EditReply ch ts msg lvl mention e]\<rparr>))"

text \<open>
  Modelled from the spec: \<open>upsertWaiting\<close> is \<open>postWaiting\<close> with the handle of an
  existing reply, the spec's waiting message that "may upsert over an existing
  coalescable reply": it posts without a handle and edits in place with one.
\<close>

definition upsertWaiting ::
  "string \<Rightarrow> string \<Rightarrow> string \<Rightarrow> string \<Rightarrow> bool \<Rightarrow> string option \<Rightarrow> ReplyResult \<Rightarrow> SlackClient
     \<Rightarrow> ReplyResult \<times> SlackClient" where
  "upsertWaiting ch ts ttl reason mention existing res c =
     (case existing of
        None \<Rightarrow> (res, c\<lparr>sent := sent c @ [WaitingMessage ch ts ttl reason mention]\<rparr>)
      | Some e \<Rightarrow> (res, c\<lparr>sent := sent c @ [EditWaiting ch ts ttl reason mention e]\<rparr>))"

subsection \<open>The inactivity watchdog\<close>

text \<open>\<open>cancelWaitingMonitor\<close>: clear the timer and delete the entry.\<close>

definition cancelWaitingMonitor :: "string \<Rightarrow> SlackClient \<Rightarrow> SlackClient" where
  "cancelWaitingMonitor j c =
     (case map_of (waitingNotifications c) j of
        None \<Rightarrow> c
      | Some n \<Rightarrow> c\<lparr>waitingNotifications := AList.delete j (waitingNotifications c)\<rparr>)"

text \<open>
  \<open>startWaitingMonitor\<close>: cancel a previous monitor of the job, set a timer of
  \<open>timeoutMs || defaultWaitingTimeoutMs\<close> milliseconds and record it as not notified.
\<close>

definition startWaitingMonitor ::
  "string \<Rightarrow> string \<Rightarrow> string \<Rightarrow> nat option \<Rightarrow> SlackClient \<Rightarrow> SlackClient" where
  "startWaitingMonitor j ch ts timeoutMs c =
     (let c1 = cancelWaitingMonitor j c;
          delay = (case timeoutMs of None \<Rightarrow> defaultWaitingTimeoutMs
                   | Some ms \<Rightarrow> if ms = 0 then defaultWaitingTimeoutMs else ms)
      in c1\<lparr>waitingNotifications :=
              AList.update j \<lparr>wn_jobId = j, wn_channel = ch, wn_threadTs = ts,
                               wn_delay = delay, notified = False\<rparr>
                (waitingNotifications c1)\<rparr>)"

text \<open>
  The timer of job \<open>j\<close> fires. A cleared timer never fires, so without an entry nothing
  happens. Otherwise the callback runs: an entry not yet notified is marked and the
  notice is posted as a warning reply, without mention.
\<close>

definition timerFires :: "string \<Rightarrow> ReplyResult \<Rightarrow> SlackClient \<Rightarrow> SlackClient" where
  "timerFires j res c =
     (case map_of (waitingNotifications c) j of
        None \<Rightarrow> c
      | Some n \<Rightarrow>
          if notified n then c
          else snd (postThreadReply (wn_channel n) (wn_threadTs n) stalledNotice Warn False res
                      (c\<lparr>waitingNotifications :=
                            AList.update j (n\<lparr>notified := True\<rparr>) (waitingNotifications c)\<rparr>)))"

definition wasWaitingNotified :: "SlackClient \<Rightarrow> string \<Rightarrow> bool" where
  "wasWaitingNotified c j =
     (case map_of (waitingNotifications c) j of None \<Rightarrow> False | Some n \<Rightarrow> notified n)"


section \<open>The tool-call transport (tools/slack-thread.ts)\<close>

text \<open>The server process holds one store and one client for its lifetime.\<close>

record system =
  store :: ThreadStore
  slack :: SlackClient

text \<open>
  A thrown \<open>Error\<close> (tool transport) or \<open>process.exit(1)\<close> (command line) is a value of
  \<open>error\<close>; a returned JSON object is a value of \<open>output\<close>: the thread identifiers
  \<open>{job_id, channel, thread_ts, permalink, note}\<close>, or \<open>{ok, reason | note, ts}\<close>.
\<close>

datatype error =
    SlackPostFailed
  | ThreadNotFound
  | CreateThreadFailed
  | MessageRequired
  | ErrorRequired
  | MetaNotJson

datatype "output" =
    ThreadInfo string string string "string option" "string option"
  | OkResult bool "string option" "string option"

text \<open>\<open>const targetThreadTs = thread_ts || state?.threadTs\<close>\<close>

definition targetThreadTs :: "string option \<Rightarrow> ThreadState option \<Rightarrow> string option" where
  "targetThreadTs thread_ts state = js_or thread_ts (map_option threadTs state)"

text \<open>\<open>const targetChannel = state?.channel || slackClient.getDefaultChannel()\<close>\<close>

definition targetChannel :: "ThreadState option \<Rightarrow> SlackClient \<Rightarrow> string" where
  "targetChannel state c =
     (if truthy (map_option channel state) then channel (the state) else getDefaultChannel c)"

text \<open>\<open>const title = state?.title || job_id\<close>\<close>

definition targetTitle :: "ThreadState option \<Rightarrow> string \<Rightarrow> string" where
  "targetTitle state job_id =
     (if truthy (map_option title state) then title (the state) else job_id)"

definition reusedNote :: string where
  "reusedNote = ''reused the existing thread''"

definition terminatedNote :: string where
  "terminatedNote = ''the job has already ended''"

definition defaultWaitingReason :: string where
  "defaultWaitingReason = ''waiting for permission or user input''"

text \<open>\<open>slack_thread_start\<close>\<close>

definition slack_thread_start ::
  "string \<Rightarrow> string \<Rightarrow> string option \<Rightarrow> (string \<times> string) list option \<Rightarrow> bool option
     \<Rightarrow> PostResult \<Rightarrow> string \<Rightarrow> system \<Rightarrow> (error + output) \<times> system" where
  "slack_thread_start job_id ttl chan meta mention pres now sys =
     (case get (store sys) job_id of
        Some existing \<Rightarrow>
          (Inr (ThreadInfo (jobId existing) (channel existing) (threadTs existing)
                  (permalink existing) (Some reusedNote)), sys)
      | None \<Rightarrow>
          (let tch = (if truthy chan then the chan else getDefaultChannel (slack sys));
               (result, c1) = postParentMessage tch ttl meta (mention \<noteq> Some False) pres (slack sys)
           in if \<not> p_ok result then (Inl SlackPostFailed, sys\<lparr>slack := c1\<rparr>)
              else (let (state, st1) = create job_id (p_channel result) (p_ts result) ttl
                                         (p_permalink result) now (store sys)
                    in (Inr (ThreadInfo (jobId state) (channel state) (threadTs state)
                               (permalink state) None),
                        \<lparr>store = st1, slack = c1\<rparr>))))"

text \<open>\<open>slack_thread_update\<close>\<close>

definition slack_thread_update ::
  "string \<Rightarrow> string \<Rightarrow> string option \<Rightarrow> level option \<Rightarrow> bool option \<Rightarrow> bool option \<Rightarrow> nat option
     \<Rightarrow> ReplyResult \<Rightarrow> string \<Rightarrow> system \<Rightarrow> (error + output) \<times> system" where
  "slack_thread_update job_id message thread_ts lvl mention enable_waiting_monitor
       waiting_timeout_ms rres now sys =
     (let state = get (store sys) job_id;
          tts = targetThreadTs thread_ts state;
          tch = targetChannel state (slack sys)
      in if \<not> truthy tts then (Inl ThreadNotFound, sys)
         else if state \<noteq> None \<and> isTerminal (store sys) job_id
         then (Inr (OkResult False (Some terminatedNote) None), sys)
         else (let c1 = cancelWaitingMonitor job_id (slack sys);
                   st1 = (if state \<noteq> None
                          then snd (updateStatus job_id InProgress now (store sys))
                          else store sys);
                   (result, c2) = postThreadReply tch (the tts) message
                                    (case lvl of None \<Rightarrow> Info | Some l \<Rightarrow> l)
                                    (mention = Some True) rres c1;
                   c3 = (if enable_waiting_monitor \<noteq> Some False
                         then startWaitingMonitor job_id tch (the tts) waiting_timeout_ms c2
                         else c2)
               in (Inr (OkResult (r_ok result) None None), \<lparr>store = st1, slack = c3\<rparr>)))"

text \<open>\<open>slack_thread_waiting\<close>\<close>

definition slack_thread_waiting ::
  "string \<Rightarrow> string option \<Rightarrow> string option \<Rightarrow> bool option
     \<Rightarrow> ReplyResult \<Rightarrow> system \<Rightarrow> (error + output) \<times> system" where
  "slack_thread_waiting job_id thread_ts reason mention rres sys =
     (let state = get (store sys) job_id;
          tts = targetThreadTs thread_ts state;
          tch = targetChannel state (slack sys);
          ttl = targetTitle state job_id
      in if \<not> truthy tts then (Inl ThreadNotFound, sys)
         else if state \<noteq> None \<and> isTerminal (store sys) job_id
         then (Inr (OkResult False (Some terminatedNote) None), sys)
         else (let reasonText = (if truthy reason then the reason else defaultWaitingReason);
                   (result, c1) = postWaiting tch (the tts) ttl reasonText
                                    (mention \<noteq> Some False) rres (slack sys)
               in (Inr (OkResult (r_ok result) None None), sys\<lparr>slack := c1\<rparr>)))"

text \<open>\<open>slack_thread_complete\<close>\<close>

definition slack_thread_complete ::
  "string \<Rightarrow> string option \<Rightarrow> string option \<Rightarrow> string list option \<Rightarrow> bool option
     \<Rightarrow> ReplyResult \<Rightarrow> string \<Rightarrow> system \<Rightarrow> (error + output) \<times> system" where
  "slack_thread_complete job_id thread_ts summary next_suggestions mention rres now sys =
     (let state = get (store sys) job_id;
          tts = targetThreadTs thread_ts state;
          tch = targetChannel state (slack sys);
          ttl = targetTitle state job_id
      in if \<not> truthy tts then (Inl ThreadNotFound, sys)
         else (let c1 = cancelWaitingMonitor job_id (slack sys)
               in if state \<noteq> None \<and> isTerminal (store sys) job_id
                  then (Inr (OkResult True (Some terminatedNote) None), sys\<lparr>slack := c1\<rparr>)
                  else (let (result, c2) = postComplete tch (the tts) ttl summary next_suggestions
                                             (mention \<noteq> Some False) rres c1;
                            st1 = (if r_ok result \<and> state \<noteq> None
                                   then snd (updateStatus job_id Completed now (store sys))
                                   else store sys)
                        in (Inr (OkResult (r_ok result) None None), \<lparr>store = st1, slack = c2\<rparr>))))"

text \<open>\<open>slack_thread_fail\<close>\<close>

definition slack_thread_fail ::
  "string \<Rightarrow> string option \<Rightarrow> string \<Rightarrow> string option \<Rightarrow> bool option
     \<Rightarrow> ReplyResult \<Rightarrow> string \<Rightarrow> system \<Rightarrow> (error + output) \<times> system" where
  "slack_thread_fail job_id thread_ts error_summary logs_hint mention rres now sys =
     (let state = get (store sys) job_id;
          tts = targetThreadTs thread_ts state;
          tch = targetChannel state (slack sys);
          ttl = targetTitle state job_id
      in if \<not> truthy tts then (Inl ThreadNotFound, sys)
         else (let c1 = cancelWaitingMonitor job_id (slack sys)
               in if state \<noteq> None \<and> isTerminal (store sys) job_id
                  then (Inr (OkResult True (Some terminatedNote) None), sys\<lparr>slack := c1\<rparr>)
                  else (let (result, c2) = postFail tch (the tts) ttl error_summary logs_hint
                                             (mention \<noteq> Some False) rres c1;
                            st1 = (if r_ok result \<and> state \<noteq> None
                                   then snd (updateStatus job_id Failed now (store sys))
                                   else store sys)
                        in (Inr (OkResult (r_ok result) None None), \<lparr>store = st1, slack = c2\<rparr>))))"


section \<open>The command line transport (cli.ts)\<close>

text \<open>
  One invocation of the command line: the parsed \<open>options\<close> (a present option is never
  the empty string: \<open>parseArgs\<close> turns an empty value into \<open>"true"\<close>), the fields taken
  from the hook's JSON on standard input (\<open>_hook_event\<close>, \<open>_prompt\<close>, \<open>_message\<close>,
  \<open>_notification_type\<close>, \<open>_transcript_path\<close>, \<open>_cwd\<close>, \<open>tool_name\<close>), whether
  \<open>--silent\<close> is among the arguments, and three values the driver computes by reading
  outside the engine: the parsed \<open>--meta\<close> (\<open>Some None\<close> when it is not JSON), the parsed
  \<open>--next-suggestions\<close>, the detail text derived from \<open>tool_input\<close>, and the last
  assistant response found in the transcript. \<open>o_thread_ts\<close> is the option
  \<open>--thread-ts\<close>: \<open>parseArgs\<close> stores it like every other option, and no command of
  this driver reads it.
\<close>

record invocation =
  o_title :: "string option"
  o_message :: "string option"
  o_level :: "string option"
  o_reason :: "string option"
  o_summary :: "string option"
  o_error :: "string option"
  o_logs_hint :: "string option"
  o_channel :: "string option"
  o_mention :: "string option"
  o_upsert :: "string option"
  o_silent :: "string option"
  o_meta :: "(string \<times> string) list option option"
  o_next_suggestions :: "string list option"
  o_thread_ts :: "string option"
  o_hook_event :: "string option"
  o_prompt :: "string option"
  o_hook_message :: "string option"
  o_notification_type :: "string option"
  o_transcript_path :: "string option"
  o_cwd :: "string option"
  stdin_tool_name :: "string option"
  tool_details :: string
  arg_silent :: bool
  last_response :: "string option"

definition fallbackTitle :: string where
  "fallbackTitle = ''Claude Code Task''"

text \<open>\<open>String.prototype.split\<close> on a one-character separator.\<close>

fun splitOn :: "char \<Rightarrow> string \<Rightarrow> string list" where
  "splitOn d [] = [[]]"
| "splitOn d (c # cs) =
     (if c = d then [] # splitOn d cs
      else (case splitOn d cs of [] \<Rightarrow> [[c]] | w # ws \<Rightarrow> (c # w) # ws))"

text \<open>\<open>cwdHint.split("/").filter(Boolean)\<close>, then the last part or the fallback.\<close>

definition titleFromCwd :: "string \<Rightarrow> string" where
  "titleFromCwd cwdHint =
     (let parts = filter (\<lambda>p. p \<noteq> []) (splitOn CHR ''/'' cwdHint)
      in if parts \<noteq> [] then last parts else fallbackTitle)"

text \<open>
  The title of a lazily created thread: \<open>titleOverride || state?.title\<close>, else derived
  from the working directory when a hint is given, else the fallback.
\<close>

definition lazyTitle :: "string option \<Rightarrow> ThreadState option \<Rightarrow> string option \<Rightarrow> string" where
  "lazyTitle titleOverride state cwdHint =
     (let t0 = js_or titleOverride (map_option title state);
          t1 = (if \<not> truthy t0 \<and> truthy cwdHint then Some (titleFromCwd (the cwdHint)) else t0)
      in if truthy t1 then the t1 else fallbackTitle)"

datatype LazyInitResult =
  LazyInit (l_threadTs: string) (l_channel: string) (l_title: string) (l_created: bool)

text \<open>
  \<open>ensureThread\<close>: a job with a non-empty stored thread handle is returned as it is;
  otherwise a parent message is posted, and on success the placeholder state is promoted
  or a new state is created.
\<close>

definition ensureThread ::
  "string \<Rightarrow> string \<Rightarrow> string option \<Rightarrow> string option \<Rightarrow> bool \<Rightarrow> PostResult \<Rightarrow> string \<Rightarrow> system
     \<Rightarrow> (error + LazyInitResult) \<times> system" where
  "ensureThread j chan titleOverride cwdHint mention pres now sys =
     (let state = get (store sys) j
      in if truthy (map_option threadTs state)
         then (Inr (LazyInit (threadTs (the state)) (channel (the state)) (title (the state)) False),
               sys)
         else (let ttl = lazyTitle titleOverride state cwdHint;
                   (result, c1) = postParentMessage chan ttl None mention pres (slack sys)
               in if \<not> p_ok result then (Inl CreateThreadFailed, sys\<lparr>slack := c1\<rparr>)
                  else (let st1 = (if state \<noteq> None
                                   then updateThreadTs j (p_ts result) (p_permalink result) (store sys)
                                   else snd (create j (p_channel result) (p_ts result) ttl
                                               (p_permalink result) now (store sys)))
                        in (Inr (LazyInit (p_ts result) (p_channel result) ttl True),
                            \<lparr>store = st1, slack = c1\<rparr>))))"

text \<open>\<open>const channel = options.channel || config.slackDefaultChannel\<close>\<close>

definition cli_channel :: "invocation \<Rightarrow> SlackClient \<Rightarrow> string" where
  "cli_channel iv c = (if truthy (o_channel iv) then the (o_channel iv) else defaultChannel c)"

text \<open>
  The default of the mention flag, as the driver's comment has it: \<open>start\<close>: true;
  \<open>update\<close>: true, but false for the \<open>PostToolUse\<close> event; everything else: false.
\<close>

definition mentionDefault :: "string \<Rightarrow> string option \<Rightarrow> bool" where
  "mentionDefault command hookEvent =
     (command = ''start'' \<or> (command = ''update'' \<and> hookEvent \<noteq> Some ''PostToolUse''))"

definition cli_mention :: "string \<Rightarrow> invocation \<Rightarrow> bool" where
  "cli_mention command iv =
     (if o_mention iv = Some ''true'' then True
      else if o_mention iv = Some ''false'' then False
      else mentionDefault command (o_hook_event iv))"

text \<open>\<open>(options.level || "info")\<close>, read as the client reads a level.\<close>

definition levelOf :: "string option \<Rightarrow> level" where
  "levelOf l = (if l = Some ''warn'' then Warn else if l = Some ''debug'' then Debug else Info)"

definition cliReusedNote :: string where
  "cliReusedNote = ''Reused existing thread''"

definition cliSilentNote :: string where
  "cliSilentNote = ''Silent mode - thread will be created lazily''"

definition cliTerminatedNote :: string where
  "cliTerminatedNote = ''Job already terminated''"

text \<open>\<open>case "start"\<close>\<close>

definition cmd_start ::
  "string \<Rightarrow> invocation \<Rightarrow> PostResult \<Rightarrow> string \<Rightarrow> system \<Rightarrow> (error + output) \<times> system" where
  "cmd_start j iv pres now sys =
     (let chan = cli_channel iv (slack sys);
          mention = cli_mention ''start'' iv;
          silent = (o_silent iv = Some ''true'' \<or> arg_silent iv);
          ttl = (if truthy (o_title iv) then the (o_title iv) else fallbackTitle)
      in case get (store sys) j of
           Some existing \<Rightarrow>
             (Inr (ThreadInfo (jobId existing) (channel existing) (threadTs existing)
                     (permalink existing) (Some cliReusedNote)), sys)
         | None \<Rightarrow>
             if silent
             then (let (state, st1) = create j chan [] ttl None now (store sys)
                   in (Inr (ThreadInfo (jobId state) (channel state) [] None (Some cliSilentNote)),
                       sys\<lparr>store := st1\<rparr>))
             else if o_meta iv = Some None then (Inl MetaNotJson, sys)
             else (let (result, c1) = postParentMessage chan ttl (case o_meta iv of None \<Rightarrow> None | Some m \<Rightarrow> m)
                                        mention pres (slack sys)
                   in if \<not> p_ok result then (Inl SlackPostFailed, sys\<lparr>slack := c1\<rparr>)
                      else (let (state, st1) = create j (p_channel result) (p_ts result) ttl
                                                 (p_permalink result) now (store sys)
                            in (Inr (ThreadInfo (jobId state) (channel state) (threadTs state)
                                       (permalink state) None),
                                \<lparr>store = st1, slack = c1\<rparr>))))"


text \<open>
  The texts the driver generates when \<open>--message\<close> is absent. The prompt is cut to 100
  characters; the source's default text after a \<open>Stop\<close> event without a response is
  Japanese ("response finished").
\<close>

definition promptMessage :: "string \<Rightarrow> string" where
  "promptMessage prompt =
     ''*Prompt:* '' @ (if length prompt > 100 then take 100 prompt @ ''...'' else prompt)"

definition toolMessage :: "string \<Rightarrow> string \<Rightarrow> string" where
  "toolMessage toolName details =
     (if details \<noteq> [] then ''*'' @ toolName @ ''*: '' @ details else ''*'' @ toolName @ ''*'')"

definition responseDone :: string where
  "responseDone = ''response finished''"

definition responseMessage :: "string option \<Rightarrow> string" where
  "responseMessage lastResponse =
     (if truthy lastResponse then ''*Response:* '' @ the lastResponse else responseDone)"

text \<open>
  The first part of \<open>case "update"\<close>: which message is posted and whether it is
  upserted. The message is \<open>--message\<close>; else, for a \<open>UserPromptSubmit\<close> event with a
  prompt, it is generated from the prompt; else, with a tool name on standard input, from
  the tool; else, for a \<open>Stop\<close> event with a transcript path, from the transcript.
\<close>

definition fromPrompt :: "invocation \<Rightarrow> bool" where
  "fromPrompt iv =
     (\<not> truthy (o_message iv) \<and> o_hook_event iv = Some ''UserPromptSubmit'' \<and> truthy (o_prompt iv))"

definition messageAfterPrompt :: "invocation \<Rightarrow> string option" where
  "messageAfterPrompt iv =
     (if fromPrompt iv then Some (promptMessage (the (o_prompt iv))) else o_message iv)"

definition fromTool :: "invocation \<Rightarrow> bool" where
  "fromTool iv = (\<not> truthy (messageAfterPrompt iv) \<and> truthy (stdin_tool_name iv))"

definition messageAfterTool :: "invocation \<Rightarrow> string option" where
  "messageAfterTool iv =
     (if fromTool iv then Some (toolMessage (the (stdin_tool_name iv)) (tool_details iv))
      else messageAfterPrompt iv)"

definition fromStop :: "invocation \<Rightarrow> bool" where
  "fromStop iv =
     (\<not> truthy (messageAfterTool iv) \<and> o_hook_event iv = Some ''Stop''
        \<and> truthy (o_transcript_path iv))"

definition updateMessage :: "invocation \<Rightarrow> string option" where
  "updateMessage iv =
     (if fromStop iv then Some (responseMessage (last_response iv)) else messageAfterTool iv)"

text \<open>
  \<open>useUpsert\<close>: initially \<open>options.upsert === "true" || isPostToolUse\<close>; a message
  generated from the prompt switches it off; a message generated after \<open>Stop\<close> sets it
  to whether a progress handle is stored at that moment.
\<close>

definition useUpsert :: "invocation \<Rightarrow> ThreadStore \<Rightarrow> string \<Rightarrow> bool" where
  "useUpsert iv st j =
     (if fromStop iv then truthy (getProgressMessageTs st j)
      else if fromPrompt iv then False
      else (o_upsert iv = Some ''true'' \<or> o_hook_event iv = Some ''PostToolUse''))"

text \<open>A message generated from the prompt first clears the progress handle of the job.\<close>

definition clearForPrompt :: "string \<Rightarrow> invocation \<Rightarrow> system \<Rightarrow> system" where
  "clearForPrompt j iv sys =
     sys\<lparr>store := (if fromPrompt iv then clearProgressMessageTs j (store sys) else store sys)\<rparr>"

text \<open>
  \<open>case "update"\<close>. After the message has been determined (and the progress handle
  cleared for a prompt), the command exits without a message. Otherwise the thread is
  ensured, a terminal job is left alone, the status is set to in progress, the reply is
  upserted, and after a successful answer with a handle the progress handle is cleared
  (\<open>Stop\<close> event) or recorded (upsert).
\<close>

definition cmd_update ::
  "string \<Rightarrow> invocation \<Rightarrow> PostResult \<Rightarrow> ReplyResult \<Rightarrow> string \<Rightarrow> string \<Rightarrow> system
     \<Rightarrow> (error + output) \<times> system" where
  "cmd_update j iv pres rres now0 now sys =
     (let chan = cli_channel iv (slack sys);
          mention = cli_mention ''update'' iv;
          sys1 = clearForPrompt j iv sys;
          upsert = useUpsert iv (store sys1) j
      in if \<not> truthy (updateMessage iv) then (Inl MessageRequired, sys1)
         else (case ensureThread j chan (o_title iv) (o_cwd iv) mention pres now0 sys1 of
                 (Inl e, sys2) \<Rightarrow> (Inl e, sys2)
               | (Inr thread, sys2) \<Rightarrow>
                   if isTerminal (store sys2) j
                   then (Inr (OkResult False (Some cliTerminatedNote) None), sys2)
                   else (let st2 = snd (updateStatus j InProgress now (store sys2));
                             existingMessageTs = (if upsert then getProgressMessageTs st2 j else None);
                             (result, c2) = upsertThreadReply (l_channel thread) (l_threadTs thread)
                                              (the (updateMessage iv)) (levelOf (o_level iv)) mention
                                              existingMessageTs rres (slack sys2);
                             st3 = (if r_ok result \<and> truthy (r_ts result)
                                    then (if o_hook_event iv = Some ''Stop''
                                          then clearProgressMessageTs j st2
                                          else if upsert
                                          then updateProgressMessageTs j (the (r_ts result)) st2
                                          else st2)
                                    else st2)
                         in (Inr (OkResult (r_ok result) None (r_ts result)),
                             \<lparr>store = st3, slack = c2\<rparr>))))"

text \<open>
  The reason of a waiting message: \<open>--reason\<close>, else the hook's message, else a text
  for the notification type (the source's table is Japanese), else a default.
\<close>

definition notificationReason :: "string \<Rightarrow> string" where
  "notificationReason t =
     (if t = ''permission_prompt'' then ''waiting for permission''
      else if t = ''idle_prompt'' then ''idle''
      else if t = ''auth_success'' then ''authentication succeeded''
      else if t = ''elicitation_dialog'' then ''waiting for additional input''
      else t)"

definition cliDefaultReason :: string where
  "cliDefaultReason = ''Waiting for permission or user input''"

definition waitingReason :: "invocation \<Rightarrow> string" where
  "waitingReason iv =
     (let r0 = o_reason iv;
          r1 = (if \<not> truthy r0 \<and> truthy (o_hook_message iv) then o_hook_message iv else r0);
          r2 = (if \<not> truthy r1 \<and> truthy (o_notification_type iv)
                then Some (notificationReason (the (o_notification_type iv))) else r1)
      in if truthy r2 then the r2 else cliDefaultReason)"

text \<open>\<open>case "waiting"\<close>\<close>

definition cmd_waiting ::
  "string \<Rightarrow> invocation \<Rightarrow> PostResult \<Rightarrow> ReplyResult \<Rightarrow> string \<Rightarrow> system
     \<Rightarrow> (error + output) \<times> system" where
  "cmd_waiting j iv pres rres now0 sys =
     (let chan = cli_channel iv (slack sys);
          mention = cli_mention ''waiting'' iv
      in case ensureThread j chan (o_title iv) (o_cwd iv) mention pres now0 sys of
           (Inl e, sys2) \<Rightarrow> (Inl e, sys2)
         | (Inr thread, sys2) \<Rightarrow>
             if isTerminal (store sys2) j
             then (Inr (OkResult False (Some cliTerminatedNote) None), sys2)
             else (let existingMessageTs = getProgressMessageTs (store sys2) j;
                       (result, c2) = upsertWaiting (l_channel thread) (l_threadTs thread)
                                        (l_title thread) (waitingReason iv) mention
                                        existingMessageTs rres (slack sys2);
                       st3 = (if r_ok result then clearProgressMessageTs j (store sys2)
                              else store sys2)
                   in (Inr (OkResult (r_ok result) None None), \<lparr>store = st3, slack = c2\<rparr>)))"

text \<open>\<open>case "complete"\<close>\<close>

definition cmd_complete ::
  "string \<Rightarrow> invocation \<Rightarrow> PostResult \<Rightarrow> ReplyResult \<Rightarrow> string \<Rightarrow> string \<Rightarrow> system
     \<Rightarrow> (error + output) \<times> system" where
  "cmd_complete j iv pres rres now0 now sys =
     (let chan = cli_channel iv (slack sys);
          mention = cli_mention ''complete'' iv
      in case ensureThread j chan (o_title iv) (o_cwd iv) mention pres now0 sys of
           (Inl e, sys2) \<Rightarrow> (Inl e, sys2)
         | (Inr thread, sys2) \<Rightarrow>
             if isTerminal (store sys2) j
             then (Inr (OkResult True (Some cliTerminatedNote) None), sys2)
             else (let (result, c2) = postComplete (l_channel thread) (l_threadTs thread)
                                        (l_title thread) (o_summary iv) (o_next_suggestions iv)
                                        mention rres (slack sys2);
                       st3 = (if r_ok result
                              then snd (updateStatus j Completed now (store sys2))
                              else store sys2)
                   in (Inr (OkResult (r_ok result) None None), \<lparr>store = st3, slack = c2\<rparr>)))"

text \<open>\<open>case "fail"\<close>\<close>

definition cmd_fail ::
  "string \<Rightarrow> invocation \<Rightarrow> PostResult \<Rightarrow> ReplyResult \<Rightarrow> string \<Rightarrow> string \<Rightarrow> system
     \<Rightarrow> (error + output) \<times> system" where
  "cmd_fail j iv pres rres now0 now sys =
     (let chan = cli_channel iv (slack sys);
          mention = cli_mention ''fail'' iv
      in if \<not> truthy (o_error iv) then (Inl ErrorRequired, sys)
         else (case ensureThread j chan (o_title iv) (o_cwd iv) mention pres now0 sys of
                 (Inl e, sys2) \<Rightarrow> (Inl e, sys2)
               | (Inr thread, sys2) \<Rightarrow>
                   if isTerminal (store sys2) j
                   then (Inr (OkResult True (Some cliTerminatedNote) None), sys2)
                   else (let (result, c2) = postFail (l_channel thread) (l_threadTs thread)
                                              (l_title thread) (the (o_error iv)) (o_logs_hint iv)
                                              mention rres (slack sys2);
                             st3 = (if r_ok result
                                    then snd (updateStatus j Failed now (store sys2))
                                    else store sys2)
                         in (Inr (OkResult (r_ok result) None None), \<lparr>store = st3, slack = c2\<rparr>))))"


text \<open>
  An update that requests upsert semantics and whose reply stays the coalescable one:
  \<open>--upsert=true\<close> or a \<open>PostToolUse\<close> event, with the message not generated from a
  prompt (which switches upsert off) and the event not \<open>Stop\<close> (after which the
  progress handle is cleared).
\<close>

definition upsertRequested :: "invocation \<Rightarrow> bool" where
  "upsertRequested iv =
     ((o_upsert iv = Some ''true'' \<or> o_hook_event iv = Some ''PostToolUse'')
      \<and> \<not> fromPrompt iv \<and> o_hook_event iv \<noteq> Some ''Stop'')"

section \<open>Thread resolution as the spec words it\<close>

text \<open>
  The outcome of resolving the thread of an operation: post into an existing thread,
  create the thread with a title, or fail with "thread not found".
\<close>

datatype resolution = UseThread string | CreateThread string | NotFound

text \<open>The last non-empty segment of a path, if it has one.\<close>

definition lastPathSegment :: "string \<Rightarrow> string option" where
  "lastPathSegment path =
     (case filter (\<lambda>p. p \<noteq> []) (splitOn CHR ''/'' path) of
        [] \<Rightarrow> None
      | p # ps \<Rightarrow> Some (last (p # ps)))"

text \<open>
  The title of a lazily created thread in the spec's order: the title supplied by the
  caller, else the stored title, else the last path segment of the working-directory
  hint, else the fixed fallback label.
\<close>

definition chooseTitle :: "string option \<Rightarrow> string option \<Rightarrow> string option \<Rightarrow> string" where
  "chooseTitle callerTitle storedTitle cwdHint =
     (if truthy callerTitle then the callerTitle
      else if truthy storedTitle then the storedTitle
      else (case (if truthy cwdHint then lastPathSegment (the cwdHint) else None) of
              Some segment \<Rightarrow> segment
            | None \<Rightarrow> fallbackTitle))"

text \<open>
  The resolution order in the spec's words: the explicit handle supplied by the caller,
  then the handle stored in the ledger, then lazy creation where it is applicable, else
  "thread not found".
\<close>

definition resolveThread ::
  "string option \<Rightarrow> string option \<Rightarrow> bool \<Rightarrow> string option \<Rightarrow> string option \<Rightarrow> string option
     \<Rightarrow> resolution" where
  "resolveThread explicit stored lazy callerTitle storedTitle cwdHint =
     (if truthy explicit then UseThread (the explicit)
      else if truthy stored then UseThread (the stored)
      else if lazy then CreateThread (chooseTitle callerTitle storedTitle cwdHint)
      else NotFound)"

section \<open>Processes and observations\<close>

text \<open>
  A freshly started process (index.ts, and \<open>main\<close> of cli.ts): a client that has sent
  nothing and watches nothing, and a store constructed from the configured path.
\<close>

definition newSystem :: "string option \<Rightarrow> (string \<Rightarrow> disk_file option) \<Rightarrow> string \<Rightarrow> system" where
  "newSystem path fsys dch =
     \<lparr>store = ThreadStore_new path fsys,
      slack = \<lparr>defaultChannel = dch, waitingNotifications = [], sent = []\<rparr>\<rparr>"

text \<open>The requests a step has added to the client's record of sent requests.\<close>

definition newCalls :: "system \<Rightarrow> system \<Rightarrow> slack_call list" where
  "newCalls sys sys' = drop (length (sent (slack sys))) (sent (slack sys'))"

text \<open>The mention flag and the thread a request carries.\<close>

fun mention_of :: "slack_call \<Rightarrow> bool" where
  "mention_of (ParentMessage _ _ _ m) = m"
| "mention_of (ThreadReply _ _ _ _ m) = m"
| "mention_of (EditReply _ _ _ _ m _) = m"
| "mention_of (CompleteMessage _ _ _ _ _ m) = m"
| "mention_of (FailMessage _ _ _ _ _ m) = m"
| "mention_of (WaitingMessage _ _ _ _ m) = m"
| "mention_of (EditWaiting _ _ _ _ m _) = m"

fun thread_of :: "slack_call \<Rightarrow> string option" where
  "thread_of (ParentMessage _ _ _ _) = None"
| "thread_of (ThreadReply _ ts _ _ _) = Some ts"
| "thread_of (EditReply _ ts _ _ _ _) = Some ts"
| "thread_of (CompleteMessage _ ts _ _ _ _) = Some ts"
| "thread_of (FailMessage _ ts _ _ _ _) = Some ts"
| "thread_of (WaitingMessage _ ts _ _ _) = Some ts"
| "thread_of (EditWaiting _ ts _ _ _ _) = Some ts"

text \<open>
  What a command of the command line sends first: the anchor message, when the job has no
  stored thread handle; and the thread its replies then go to.
\<close>

definition anchorPart :: "string \<Rightarrow> string \<Rightarrow> invocation \<Rightarrow> system \<Rightarrow> slack_call list" where
  "anchorPart command j iv sys =
     (if truthy (map_option threadTs (get (store sys) j)) then []
      else [ParentMessage (cli_channel iv (slack sys))
              (lazyTitle (o_title iv) (get (store sys) j) (o_cwd iv)) None (cli_mention command iv)])"

definition resolvedTs :: "string \<Rightarrow> PostResult \<Rightarrow> system \<Rightarrow> string" where
  "resolvedTs j pres sys =
     (if truthy (map_option threadTs (get (store sys) j)) then threadTs (the (get (store sys) j))
      else p_ts pres)"

subsection \<open>The server process\<close>




subsection \<open>The processes of the command line\<close>

text \<open>
  Every invocation of the command line is a process of its own: \<open>main\<close> of cli.ts
  constructs a new client and \<open>new ThreadStore(config.threadStatePath)\<close>, runs one command
  and exits. Nothing but the state file passes from one invocation to the next.
  \<open>restart sys\<close> is the process started, with the same configuration, on the file system
  that the process \<open>sys\<close> has left behind: without a configured path, or without a file
  under it, its ledger is empty.
\<close>

definition restart :: "system \<Rightarrow> system" where
  "restart sys = newSystem (persistPath (store sys)) (fs (store sys)) (defaultChannel (slack sys))"




text \<open>
  The store agrees with its state file: a path is configured, and a store constructed
  from the path and the file system starts as this very store. Every store is in this
  state when it has been constructed, and again whenever it has written its file.
\<close>

definition synced :: "ThreadStore \<Rightarrow> bool" where
  "synced s = (truthy (persistPath s) \<and> ThreadStore_new (persistPath s) (fs s) = s)"

text \<open>
  Job \<open>j\<close> is held with a thread: a state under its own identifier with the given
  channel, non-empty thread handle and permalink.
\<close>

definition anchored :: "ThreadStore \<Rightarrow> string \<Rightarrow> string \<Rightarrow> string \<Rightarrow> string option \<Rightarrow> bool" where
  "anchored s j ch ts pl =
     (case get s j of
        None \<Rightarrow> False
      | Some st \<Rightarrow> jobId st = j \<and> channel st = ch \<and> threadTs st = ts \<and> permalink st = pl
                    \<and> ts \<noteq> [])"

subsection \<open>Inputs used in the examples\<close>

text \<open>
  A process, of either transport, freshly started without a state path and with default
  channel \<open>C0\<close>; answers of the platform; a command line invocation without any option.
\<close>

definition exampleSystem :: system where
  "exampleSystem = newSystem None (\<lambda>_. None) ''C0''"

definition okReply :: "string \<Rightarrow> ReplyResult" where
  "okReply h = \<lparr>r_ok = True, r_ts = Some h\<rparr>"

definition failedReply :: ReplyResult where
  "failedReply = \<lparr>r_ok = False, r_ts = None\<rparr>"

definition okPost :: "string \<Rightarrow> string \<Rightarrow> PostResult" where
  "okPost ch h = \<lparr>p_ok = True, p_channel = ch, p_ts = h, p_permalink = Some (''https://slack.example/'' @ h)\<rparr>"

definition failedPost :: PostResult where
  "failedPost = \<lparr>p_ok = False, p_channel = [], p_ts = [], p_permalink = None\<rparr>"

definition noOptions :: invocation where
  "noOptions =
     \<lparr>o_title = None, o_message = None, o_level = None, o_reason = None, o_summary = None,
      o_error = None, o_logs_hint = None, o_channel = None, o_mention = None, o_upsert = None,
      o_silent = None, o_meta = None, o_next_suggestions = None, o_thread_ts = None,
      o_hook_event = None,
      o_prompt = None, o_hook_message = None, o_notification_type = None,
      o_transcript_path = None, o_cwd = None, stdin_tool_name = None, tool_details = [],
      arg_silent = False, last_response = None\<rparr>"

text \<open>The example server after its \<open>start\<close> tool has created the job \<open>j1\<close>.\<close>

definition startedSystem :: system where
  "startedSystem = snd (slack_thread_start ''j1'' ''Deploy'' None None None
                          (okPost ''C0'' ''100.1'') ''t0'' exampleSystem)"

text \<open>
  A scenario with a state file shared by the two transports: the command line starts job
  \<open>j1\<close> silently; a server constructed from the file completes it through an explicit
  thread handle; a later command line process is constructed from the file again.
\<close>

definition afterSilentStart :: system where
  "afterSilentStart =
     snd (cmd_start ''j1'' (noOptions\<lparr>o_title := Some ''Deploy'', arg_silent := True\<rparr>) failedPost ''t0''
            (newSystem (Some ''state.json'') (\<lambda>_. None) ''C0''))"

definition afterExplicitComplete :: system where
  "afterExplicitComplete =
     snd (slack_thread_complete ''j1'' (Some ''100.1'') None None None (okReply ''100.2'') ''t1''
            (newSystem (Some ''state.json'') (fs (store afterSilentStart)) ''C0''))"

definition restartedCli :: system where
  "restartedCli = newSystem (Some ''state.json'') (fs (store afterExplicitComplete)) ''C0''"

text \<open>The example server after an update of job \<open>j1\<close> has armed the watchdog.\<close>

definition watchedSystem :: system where
  "watchedSystem = snd (slack_thread_update ''j1'' ''building'' None None None None None
                          (okReply ''100.2'') ''t1'' startedSystem)"

text \<open>Command line updates with a message and \<open>--upsert=true\<close>, the second from a \<open>Stop\<close> hook.\<close>

definition upsertOptions :: "string \<Rightarrow> invocation" where
  "upsertOptions msg = noOptions\<lparr>o_message := Some msg, o_upsert := Some ''true''\<rparr>"

definition stopOptions :: "string \<Rightarrow> invocation" where
  "stopOptions msg = noOptions\<lparr>o_message := Some msg, o_upsert := Some ''true'',
                                 o_hook_event := Some ''Stop''\<rparr>"

text \<open>An invocation whose only input is the working directory of the hook.\<close>

definition cwdOptions :: invocation where
  "cwdOptions = noOptions\<lparr>o_cwd := Some ''/home/me/proj''\<rparr>"

text \<open>An update of the command line that names a thread explicitly.\<close>

definition explicitOptions :: invocation where
  "explicitOptions = noOptions\<lparr>o_message := Some ''building'', o_thread_ts := Some ''100.1''\<rparr>"



text \<open>
  A command line process with a configured state path, before any file exists; the
  process after it has started job \<open>j1\<close>; the next process, constructed from the file;
  and some invocations that may follow.
\<close>

definition fileCli :: system where
  "fileCli = newSystem (Some ''state.json'') (\<lambda>_. None) ''C0''"

definition afterCliStart :: system where
  "afterCliStart =
     snd (cmd_start ''j1'' (noOptions\<lparr>o_title := Some ''Deploy''\<rparr>) (okPost ''C0'' ''100.1'') ''t0'' fileCli)"

definition startedCli :: system where
  "startedCli = restart afterCliStart"



section \<open>Properties of the ledger\<close>

text \<open>The defining equations, grouped for evaluation at concrete inputs.\<close>

lemmas example_defs = exampleSystem_def newSystem_def ThreadStore_new_def okReply_def okPost_def
  failedReply_def failedPost_def noOptions_def

lemmas store_defs = get_def create_def updateStatus_def isTerminal_def saveToDisk_def
  updateThreadTs_def getProgressMessageTs_def updateProgressMessageTs_def
  clearProgressMessageTs_def

lemmas client_defs = postParentMessage_def postThreadReply_def postComplete_def postFail_def
  postWaiting_def upsertThreadReply_def upsertWaiting_def cancelWaitingMonitor_def
  startWaitingMonitor_def timerFires_def getDefaultChannel_def

lemmas tool_defs = slack_thread_start_def slack_thread_update_def slack_thread_waiting_def
  slack_thread_complete_def slack_thread_fail_def targetThreadTs_def targetChannel_def
  targetTitle_def js_or_def

lemmas cli_defs = cmd_start_def cmd_update_def cmd_waiting_def cmd_complete_def cmd_fail_def
  ensureThread_def lazyTitle_def cli_channel_def cli_mention_def mentionDefault_def
  clearForPrompt_def fromPrompt_def fromTool_def fromStop_def messageAfterPrompt_def
  messageAfterTool_def updateMessage_def useUpsert_def levelOf_def waitingReason_def js_or_def


lemma update_fresh: "k \<notin> fst ` set al \<Longrightarrow> AList.update k v al = al @ [(k, v)]"
  by (induction al) auto

lemma fold_set_fresh:
  "distinct (map jobId xs) \<Longrightarrow> jobId ` set xs \<inter> fst ` set acc = {} \<Longrightarrow>
   fold (\<lambda>st m. AList.update (jobId st) st m) xs acc = acc @ map (\<lambda>st. (jobId st, st)) xs"
proof (induction xs arbitrary: acc)
  case Nil
  then show ?case by simp
next
  case (Cons x xs)
  from Cons.prems have fresh: "jobId x \<notin> fst ` set acc" by auto
  have "jobId ` set xs \<inter> fst ` set (acc @ [(jobId x, x)]) = {}"
    using Cons.prems by auto
  with Cons.IH [of "acc @ [(jobId x, x)]"] Cons.prems fresh show ?case
    by (simp add: update_fresh)
qed

lemma load_array:
  assumes "distinct (map jobId xs)"
  shows "fold (\<lambda>st m. AList.update (jobId st) st m) xs [] = map (\<lambda>st. (jobId st, st)) xs"
  using fold_set_fresh [OF assms, of "[]"] by simp

lemma saved_array:
  "truthy (persistPath s) \<Longrightarrow> fs (saveToDisk s) (the (persistPath s)) = Some (Json (listStates s))"
  by (simp add: saveToDisk_def listStates_def)

lemma keyed_values: "keyed al \<Longrightarrow> map (\<lambda>st. (jobId st, st)) (map snd al) = al"
  unfolding keyed_def by (induction al) auto

lemma keyed_ids: "keyed al \<Longrightarrow> map jobId (map snd al) = map fst al"
  unfolding keyed_def by (induction al) auto

lemma keyed_distinct_ids: "keyed al \<Longrightarrow> distinct (map jobId (map snd al))"
  using keyed_ids [of al] by (simp only: keyed_def)

text \<open>
  A store whose entries sit under their own identifiers is rebuilt exactly, order
  included, by a process that starts from the file the store has written.
\<close>

lemma restart_threads:
  assumes "keyed (threads s)" and "persistPath s = Some p" and "p \<noteq> []"
  shows "threads (ThreadStore_new (persistPath s) (fs (saveToDisk s))) = threads s"
  using assms load_array [OF keyed_distinct_ids [OF assms(1)]] keyed_values [OF assms(1)]
  by (simp add: ThreadStore_new_def loadFromDisk_def saveToDisk_def)

lemma get_saveToDisk [simp]: "get (saveToDisk s) k = get s k"
  by (simp add: get_def saveToDisk_def)

lemma threads_saveToDisk [simp]: "threads (saveToDisk s) = threads s"
  by (simp add: saveToDisk_def)

lemma persistPath_saveToDisk [simp]: "persistPath (saveToDisk s) = persistPath s"
  by (simp add: saveToDisk_def)

lemma get_create:
  "get (snd (create j ch ts ttl pl now s)) k =
     (if k = j then Some (fst (create j ch ts ttl pl now s)) else get s k)"
  by (simp add: create_def get_def Let_def update_conv')

lemma get_updateStatus:
  "get (snd (updateStatus j stat now s)) k =
     (if k = j then map_option (\<lambda>st. st\<lparr>status := stat, updatedAt := now\<rparr>) (get s j) else get s k)"
  by (cases "get s j") (simp_all add: updateStatus_def get_def update_conv')

lemma get_updateThreadTs:
  "get (updateThreadTs j ts pl s) k =
     (if k = j then map_option (\<lambda>st. st\<lparr>threadTs := ts, permalink := pl\<rparr>) (get s j) else get s k)"
  by (cases "get s j") (simp_all add: updateThreadTs_def get_def update_conv')

lemma get_updateProgressMessageTs:
  "get (updateProgressMessageTs j ts s) k =
     (if k = j then map_option (\<lambda>st. st\<lparr>progressMessageTs := Some ts\<rparr>) (get s j) else get s k)"
  by (cases "get s j") (simp_all add: updateProgressMessageTs_def get_def update_conv')

lemma get_clearProgressMessageTs:
  "get (clearProgressMessageTs j s) k =
     (if k = j then map_option (\<lambda>st. st\<lparr>progressMessageTs := None\<rparr>) (get s j) else get s k)"
  by (cases "get s j") (simp_all add: clearProgressMessageTs_def get_def update_conv')

lemmas get_simps = get_create get_updateStatus get_updateThreadTs get_updateProgressMessageTs
  get_clearProgressMessageTs

text \<open>
  Claim C9 (round-trip persistence). Let \<open>xs\<close> be job states with pairwise different job
  identifiers, of any number (0, 1 and 50 included), held by a ledger with a configured
  storage path. After the ledger has written its file, a new ledger constructed from
  that path lists exactly \<open>xs\<close>: the same states, field for field.
\<close>

theorem roundtrip_persistence:
  assumes "distinct (map jobId xs)" and "p \<noteq> []"
  shows "listStates (ThreadStore_new (Some p)
                       (fs (saveToDisk \<lparr>threads = map (\<lambda>st. (jobId st, st)) xs,
                                        persistPath = Some p, fs = fsys\<rparr>))) = xs"
  using assms load_array [OF assms(1)]
  by (simp add: ThreadStore_new_def loadFromDisk_def saveToDisk_def listStates_def comp_def)

theorem roundtrip_persistence_witness:
  "distinct (map jobId
      [\<lparr>jobId = ''j1'', channel = ''C1'', threadTs = ''100.1'', title = ''Deploy'',
        status = InProgress, createdAt = ''t0'', updatedAt = ''t1'',
        permalink = Some ''https://x/p1'', progressMessageTs = None\<rparr>,
       \<lparr>jobId = ''j2'', channel = ''C1'', threadTs = [], title = ''Build'',
        status = Started, createdAt = ''t2'', updatedAt = ''t2'',
        permalink = None, progressMessageTs = Some ''100.7''\<rparr>])
   \<and> ''state.json'' \<noteq> []
   \<and> listStates (ThreadStore_new (Some ''state.json'')
        (fs (saveToDisk
           \<lparr>threads = map (\<lambda>st. (jobId st, st))
              [\<lparr>jobId = ''j1'', channel = ''C1'', threadTs = ''100.1'', title = ''Deploy'',
                status = InProgress, createdAt = ''t0'', updatedAt = ''t1'',
                permalink = Some ''https://x/p1'', progressMessageTs = None\<rparr>,
               \<lparr>jobId = ''j2'', channel = ''C1'', threadTs = [], title = ''Build'',
                status = Started, createdAt = ''t2'', updatedAt = ''t2'',
                permalink = None, progressMessageTs = Some ''100.7''\<rparr>],
            persistPath = Some ''state.json'', fs = (\<lambda>_. None)\<rparr>)))
      = [\<lparr>jobId = ''j1'', channel = ''C1'', threadTs = ''100.1'', title = ''Deploy'',
          status = InProgress, createdAt = ''t0'', updatedAt = ''t1'',
          permalink = Some ''https://x/p1'', progressMessageTs = None\<rparr>,
         \<lparr>jobId = ''j2'', channel = ''C1'', threadTs = [], title = ''Build'',
          status = Started, createdAt = ''t2'', updatedAt = ''t2'',
          permalink = None, progressMessageTs = Some ''100.7''\<rparr>]"
proof -
  let ?xs = "[\<lparr>jobId = ''j1'', channel = ''C1'', threadTs = ''100.1'', title = ''Deploy'',
                status = InProgress, createdAt = ''t0'', updatedAt = ''t1'',
                permalink = Some ''https://x/p1'', progressMessageTs = None\<rparr>,
               \<lparr>jobId = ''j2'', channel = ''C1'', threadTs = [], title = ''Build'',
                status = Started, createdAt = ''t2'', updatedAt = ''t2'',
                permalink = None, progressMessageTs = Some ''100.7''\<rparr>]"
  have d: "distinct (map jobId ?xs)" by simp
  have p: "''state.json'' \<noteq> []" by simp
  from roundtrip_persistence [OF d p, of "\<lambda>_. None"] d p show ?thesis by blast
qed


section \<open>Properties of the client\<close>

lemma sent_cancelWaitingMonitor [simp]: "sent (cancelWaitingMonitor j c) = sent c"
  by (simp add: cancelWaitingMonitor_def split: option.split)

lemma defaultChannel_cancelWaitingMonitor [simp]:
  "defaultChannel (cancelWaitingMonitor j c) = defaultChannel c"
  by (simp add: cancelWaitingMonitor_def split: option.split)

lemma sent_startWaitingMonitor [simp]: "sent (startWaitingMonitor j ch ts ms c) = sent c"
  by (simp add: startWaitingMonitor_def Let_def)

lemma defaultChannel_startWaitingMonitor [simp]:
  "defaultChannel (startWaitingMonitor j ch ts ms c) = defaultChannel c"
  by (simp add: startWaitingMonitor_def Let_def)

lemma newCalls_append [simp]:
  "sent (slack sys') = sent (slack sys) @ cs \<Longrightarrow> newCalls sys sys' = cs"
  by (simp add: newCalls_def)

lemma newCalls_same [simp]: "newCalls sys sys = []"
  by (simp add: newCalls_def)

section \<open>Properties of the tool-call transport\<close>

text \<open>
  Claim C10 (explicit thread handle for an unknown job). When the update tool or the
  waiting tool is called with a non-empty explicit \<open>thread_ts\<close> for a \<open>job_id\<close> that the
  ledger does not hold, the reply is posted into that thread of the default channel and
  the tool answers with the platform's \<open>ok\<close>, while the store (its map and its file) is
  exactly what it was: no state is created and no status is set.
\<close>

theorem explicit_thread_absent_job:
  assumes "get (store sys) job_id = None" and "t \<noteq> []"
  shows "fst (slack_thread_update job_id message (Some t) lvl mention enable tmo rres now sys)
           = Inr (OkResult (r_ok rres) None None)
       \<and> store (snd (slack_thread_update job_id message (Some t) lvl mention enable tmo rres now sys))
           = store sys
       \<and> newCalls sys (snd (slack_thread_update job_id message (Some t) lvl mention enable tmo rres now sys))
           = [ThreadReply (defaultChannel (slack sys)) t message
                (case lvl of None \<Rightarrow> Info | Some l \<Rightarrow> l) (mention = Some True)]
       \<and> fst (slack_thread_waiting job_id (Some t) reason mention rres sys)
           = Inr (OkResult (r_ok rres) None None)
       \<and> store (snd (slack_thread_waiting job_id (Some t) reason mention rres sys)) = store sys
       \<and> newCalls sys (snd (slack_thread_waiting job_id (Some t) reason mention rres sys))
           = [WaitingMessage (defaultChannel (slack sys)) t job_id
                (if truthy reason then the reason else defaultWaitingReason)
                (mention \<noteq> Some False)]"
  using assms
  by (simp add: slack_thread_update_def slack_thread_waiting_def targetThreadTs_def js_or_def
      targetChannel_def targetTitle_def getDefaultChannel_def postThreadReply_def postWaiting_def
      Let_def)

theorem explicit_thread_absent_job_witness:
  "get (store exampleSystem) ''j9'' = None \<and> ''100.1'' \<noteq> []
   \<and> store (snd (slack_thread_update ''j9'' ''building'' (Some ''100.1'') None None None None
                    (okReply ''100.2'') ''t1'' exampleSystem)) = store exampleSystem
   \<and> newCalls exampleSystem
        (snd (slack_thread_update ''j9'' ''building'' (Some ''100.1'') None None None None
                (okReply ''100.2'') ''t1'' exampleSystem))
      = [ThreadReply ''C0'' ''100.1'' ''building'' Info False]
   \<and> store (snd (slack_thread_waiting ''j9'' (Some ''100.1'') None None (okReply ''100.2'')
                    exampleSystem)) = store exampleSystem"
proof -
  have a: "get (store exampleSystem) ''j9'' = None"
    by (simp add: exampleSystem_def newSystem_def ThreadStore_new_def get_def)
  have b: "''100.1'' \<noteq> []" by simp
  have c: "defaultChannel (slack exampleSystem) = ''C0''"
    by (simp add: exampleSystem_def newSystem_def)
  from explicit_thread_absent_job [OF a b, where message = "''building''" and lvl = None
      and mention = None and enable = None and tmo = None and rres = "okReply ''100.2''"
      and now = "''t1''" and reason = None] a b c
  show ?thesis by simp
qed

section \<open>Properties of the command line transport\<close>

lemma ensureThread_existing:
  assumes "get (store sys) j = Some st" and "threadTs st \<noteq> []"
  shows "ensureThread j chan titleOverride cwdHint mention pres now sys
           = (Inr (LazyInit (threadTs st) (channel st) (title st) False), sys)"
  using assms by (simp add: ensureThread_def)

lemma ensureThread_failed:
  assumes "\<not> truthy (map_option threadTs (get (store sys) j))" and "\<not> p_ok pres"
  shows "ensureThread j chan titleOverride cwdHint mention pres now sys
           = (Inl CreateThreadFailed,
              sys\<lparr>slack := (slack sys)\<lparr>sent := sent (slack sys) @
                 [ParentMessage chan (lazyTitle titleOverride (get (store sys) j) cwdHint) None mention]\<rparr>\<rparr>)"
  using assms by (simp add: ensureThread_def postParentMessage_def Let_def)

lemma ensureThread_created:
  assumes "\<not> truthy (map_option threadTs (get (store sys) j))" and "p_ok pres"
  shows "ensureThread j chan titleOverride cwdHint mention pres now sys
           = (Inr (LazyInit (p_ts pres) (p_channel pres)
                     (lazyTitle titleOverride (get (store sys) j) cwdHint) True),
              \<lparr>store = (if get (store sys) j \<noteq> None
                         then updateThreadTs j (p_ts pres) (p_permalink pres) (store sys)
                         else snd (create j (p_channel pres) (p_ts pres)
                                     (lazyTitle titleOverride (get (store sys) j) cwdHint)
                                     (p_permalink pres) now (store sys))),
               slack = (slack sys)\<lparr>sent := sent (slack sys) @
                 [ParentMessage chan (lazyTitle titleOverride (get (store sys) j) cwdHint) None mention]\<rparr>\<rparr>)"
  using assms by (simp add: ensureThread_def postParentMessage_def Let_def)

lemma ensureThread_sent:
  "sent (slack (snd (ensureThread j chan titleOverride cwdHint mention pres now sys)))
     = sent (slack sys) @
       (if truthy (map_option threadTs (get (store sys) j)) then []
        else [ParentMessage chan (lazyTitle titleOverride (get (store sys) j) cwdHint) None mention])"
  by (simp add: ensureThread_def postParentMessage_def Let_def)

text \<open>What a command does after \<open>ensureThread\<close>, with the call left folded.\<close>

lemma cmd_waiting_unfold:
  assumes "ensureThread j (cli_channel iv (slack sys)) (o_title iv) (o_cwd iv)
             (cli_mention ''waiting'' iv) pres now0 sys = (r, sys2)"
  shows "cmd_waiting j iv pres rres now0 sys =
     (case r of
        Inl e \<Rightarrow> (Inl e, sys2)
      | Inr thread \<Rightarrow>
          if isTerminal (store sys2) j
          then (Inr (OkResult False (Some cliTerminatedNote) None), sys2)
          else (Inr (OkResult (r_ok rres) None None),
                \<lparr>store = (if r_ok rres then clearProgressMessageTs j (store sys2) else store sys2),
                 slack = (slack sys2)\<lparr>sent := sent (slack sys2) @
                   [case getProgressMessageTs (store sys2) j of
                      None \<Rightarrow> WaitingMessage (l_channel thread) (l_threadTs thread) (l_title thread)
                                (waitingReason iv) (cli_mention ''waiting'' iv)
                    | Some e \<Rightarrow> EditWaiting (l_channel thread) (l_threadTs thread) (l_title thread)
                                (waitingReason iv) (cli_mention ''waiting'' iv) e]\<rparr>\<rparr>))"
  using assms
  by (cases r) (simp_all add: cmd_waiting_def upsertWaiting_def Let_def split: option.split)

lemma cmd_complete_unfold:
  assumes "ensureThread j (cli_channel iv (slack sys)) (o_title iv) (o_cwd iv)
             (cli_mention ''complete'' iv) pres now0 sys = (r, sys2)"
  shows "cmd_complete j iv pres rres now0 now sys =
     (case r of
        Inl e \<Rightarrow> (Inl e, sys2)
      | Inr thread \<Rightarrow>
          if isTerminal (store sys2) j
          then (Inr (OkResult True (Some cliTerminatedNote) None), sys2)
          else (Inr (OkResult (r_ok rres) None None),
                \<lparr>store = (if r_ok rres then snd (updateStatus j Completed now (store sys2))
                          else store sys2),
                 slack = (slack sys2)\<lparr>sent := sent (slack sys2) @
                   [CompleteMessage (l_channel thread) (l_threadTs thread) (l_title thread)
                      (o_summary iv) (o_next_suggestions iv) (cli_mention ''complete'' iv)]\<rparr>\<rparr>))"
  using assms
  by (cases r) (simp_all add: cmd_complete_def postComplete_def Let_def)

lemma cmd_fail_unfold:
  assumes "ensureThread j (cli_channel iv (slack sys)) (o_title iv) (o_cwd iv)
             (cli_mention ''fail'' iv) pres now0 sys = (r, sys2)"
  shows "cmd_fail j iv pres rres now0 now sys =
     (if \<not> truthy (o_error iv) then (Inl ErrorRequired, sys)
      else case r of
        Inl e \<Rightarrow> (Inl e, sys2)
      | Inr thread \<Rightarrow>
          if isTerminal (store sys2) j
          then (Inr (OkResult True (Some cliTerminatedNote) None), sys2)
          else (Inr (OkResult (r_ok rres) None None),
                \<lparr>store = (if r_ok rres then snd (updateStatus j Failed now (store sys2))
                          else store sys2),
                 slack = (slack sys2)\<lparr>sent := sent (slack sys2) @
                   [FailMessage (l_channel thread) (l_threadTs thread) (l_title thread)
                      (the (o_error iv)) (o_logs_hint iv) (cli_mention ''fail'' iv)]\<rparr>\<rparr>))"
  using assms
  by (cases r) (simp_all add: cmd_fail_def postFail_def Let_def)

lemma cmd_update_unfold:
  assumes "ensureThread j (cli_channel iv (slack sys)) (o_title iv) (o_cwd iv)
             (cli_mention ''update'' iv) pres now0 (clearForPrompt j iv sys) = (r, sys2)"
  shows "cmd_update j iv pres rres now0 now sys =
     (if \<not> truthy (updateMessage iv) then (Inl MessageRequired, clearForPrompt j iv sys)
      else case r of
        Inl e \<Rightarrow> (Inl e, sys2)
      | Inr thread \<Rightarrow>
          if isTerminal (store sys2) j
          then (Inr (OkResult False (Some cliTerminatedNote) None), sys2)
          else (let upsert = useUpsert iv (store (clearForPrompt j iv sys)) j;
                    st2 = snd (updateStatus j InProgress now (store sys2))
                in (Inr (OkResult (r_ok rres) None (r_ts rres)),
                    \<lparr>store = (if r_ok rres \<and> truthy (r_ts rres)
                               then (if o_hook_event iv = Some ''Stop''
                                     then clearProgressMessageTs j st2
                                     else if upsert
                                     then updateProgressMessageTs j (the (r_ts rres)) st2
                                     else st2)
                               else st2),
                     slack = (slack sys2)\<lparr>sent := sent (slack sys2) @
                       [case (if upsert then getProgressMessageTs st2 j else None) of
                          None \<Rightarrow> ThreadReply (l_channel thread) (l_threadTs thread)
                                    (the (updateMessage iv)) (levelOf (o_level iv))
                                    (cli_mention ''update'' iv)
                        | Some e \<Rightarrow> EditReply (l_channel thread) (l_threadTs thread)
                                    (the (updateMessage iv)) (levelOf (o_level iv))
                                    (cli_mention ''update'' iv) e]\<rparr>\<rparr>)))"
  using assms
  by (cases r)
     (simp_all add: cmd_update_def clearForPrompt_def upsertThreadReply_def Let_def split: option.split)



section \<open>The mention flag\<close>

text \<open>Every request a step sends carries the mention flag the step has computed.\<close>

lemma tool_mentions:
  "list_all (\<lambda>c. mention_of c = (mention \<noteq> Some False))
        (newCalls sys (snd (slack_thread_start j ttl ch meta mention pres now sys)))"
  "list_all (\<lambda>c. mention_of c = (mention = Some True))
        (newCalls sys (snd (slack_thread_update j msg tts lvl mention en tmo rres now sys)))"
  "list_all (\<lambda>c. mention_of c = (mention \<noteq> Some False))
        (newCalls sys (snd (slack_thread_waiting j tts reason mention rres sys)))"
  "list_all (\<lambda>c. mention_of c = (mention \<noteq> Some False))
        (newCalls sys (snd (slack_thread_complete j tts summary sugg mention rres now sys)))"
  "list_all (\<lambda>c. mention_of c = (mention \<noteq> Some False))
        (newCalls sys (snd (slack_thread_fail j tts err logs mention rres now sys)))"
  by (simp_all add: slack_thread_start_def slack_thread_update_def slack_thread_waiting_def
      slack_thread_complete_def slack_thread_fail_def postParentMessage_def postThreadReply_def
      postWaiting_def postComplete_def postFail_def newCalls_def Let_def
      split: option.split prod.split)

lemma ensureThread_mentions:
  assumes "ensureThread j chan titleOverride cwdHint m pres now sys = (r, sys2)"
  shows "\<exists>cs. sent (slack sys2) = sent (slack sys) @ cs \<and> list_all (\<lambda>c. mention_of c = m) cs"
  using ensureThread_sent [of j chan titleOverride cwdHint m pres now sys] assms
  by (cases "truthy (map_option threadTs (get (store sys) j))") auto

lemma cmd_start_mentions:
  "list_all (\<lambda>c. mention_of c = cli_mention ''start'' iv)
        (newCalls sys (snd (cmd_start j iv pres now sys)))"
  by (simp add: cmd_start_def postParentMessage_def newCalls_def Let_def
      split: option.split prod.split)

lemma cmd_waiting_mentions:
  "list_all (\<lambda>c. mention_of c = cli_mention ''waiting'' iv)
        (newCalls sys (snd (cmd_waiting j iv pres rres now0 sys)))"
proof -
  obtain r sys2 where e: "ensureThread j (cli_channel iv (slack sys)) (o_title iv) (o_cwd iv)
      (cli_mention ''waiting'' iv) pres now0 sys = (r, sys2)"
    by (cases "ensureThread j (cli_channel iv (slack sys)) (o_title iv) (o_cwd iv)
      (cli_mention ''waiting'' iv) pres now0 sys")
  from ensureThread_mentions [OF e] obtain cs where
    "sent (slack sys2) = sent (slack sys) @ cs" "list_all (\<lambda>c. mention_of c = cli_mention ''waiting'' iv) cs"
    by blast
  then show ?thesis
    by (cases r) (simp_all add: cmd_waiting_unfold [OF e] newCalls_def split: option.split)
qed

lemma cmd_complete_mentions:
  "list_all (\<lambda>c. mention_of c = cli_mention ''complete'' iv)
        (newCalls sys (snd (cmd_complete j iv pres rres now0 now sys)))"
proof -
  obtain r sys2 where e: "ensureThread j (cli_channel iv (slack sys)) (o_title iv) (o_cwd iv)
      (cli_mention ''complete'' iv) pres now0 sys = (r, sys2)"
    by (cases "ensureThread j (cli_channel iv (slack sys)) (o_title iv) (o_cwd iv)
      (cli_mention ''complete'' iv) pres now0 sys")
  from ensureThread_mentions [OF e] obtain cs where
    "sent (slack sys2) = sent (slack sys) @ cs" "list_all (\<lambda>c. mention_of c = cli_mention ''complete'' iv) cs"
    by blast
  then show ?thesis
    by (cases r) (simp_all add: cmd_complete_unfold [OF e] newCalls_def)
qed

lemma cmd_fail_mentions:
  "list_all (\<lambda>c. mention_of c = cli_mention ''fail'' iv)
        (newCalls sys (snd (cmd_fail j iv pres rres now0 now sys)))"
proof -
  obtain r sys2 where e: "ensureThread j (cli_channel iv (slack sys)) (o_title iv) (o_cwd iv)
      (cli_mention ''fail'' iv) pres now0 sys = (r, sys2)"
    by (cases "ensureThread j (cli_channel iv (slack sys)) (o_title iv) (o_cwd iv)
      (cli_mention ''fail'' iv) pres now0 sys")
  from ensureThread_mentions [OF e] obtain cs where
    "sent (slack sys2) = sent (slack sys) @ cs" "list_all (\<lambda>c. mention_of c = cli_mention ''fail'' iv) cs"
    by blast
  then show ?thesis
    by (cases r) (simp_all add: cmd_fail_unfold [OF e] newCalls_def)
qed

lemma slack_clearForPrompt [simp]: "slack (clearForPrompt j iv sys) = slack sys"
  by (simp add: clearForPrompt_def)

lemma cmd_update_mentions:
  "list_all (\<lambda>c. mention_of c = cli_mention ''update'' iv)
        (newCalls sys (snd (cmd_update j iv pres rres now0 now sys)))"
proof -
  obtain r sys2 where e: "ensureThread j (cli_channel iv (slack sys)) (o_title iv) (o_cwd iv)
      (cli_mention ''update'' iv) pres now0 (clearForPrompt j iv sys) = (r, sys2)"
    by (cases "ensureThread j (cli_channel iv (slack sys)) (o_title iv) (o_cwd iv)
      (cli_mention ''update'' iv) pres now0 (clearForPrompt j iv sys)")
  from ensureThread_mentions [OF e] obtain cs where
    "sent (slack sys2) = sent (slack sys) @ cs" "list_all (\<lambda>c. mention_of c = cli_mention ''update'' iv) cs"
    by auto
  then show ?thesis
    by (cases r) (simp_all add: cmd_update_unfold [OF e] newCalls_def Let_def split: option.split)
qed

text \<open>
  Claim C7 (mention defaults), as amended. When the caller does not specify the mention
  flag, the tools \<open>start\<close>, \<open>waiting\<close>, \<open>complete\<close> and \<open>fail\<close> of the tool-call transport
  request a mention with every message they send and the tool \<open>update\<close> requests none.
  The command line has other defaults: \<open>start\<close> requests a mention, \<open>update\<close>
  requests one unless the hook event is \<open>PostToolUse\<close>, and \<open>waiting\<close>, \<open>complete\<close> and
  \<open>fail\<close> request none.
\<close>

theorem mention_defaults:
  "list_all mention_of
     (newCalls sys (snd (slack_thread_start j ttl ch meta None pres now sys)))
   \<and> list_all (\<lambda>c. \<not> mention_of c)
     (newCalls sys (snd (slack_thread_update j msg tts lvl None en tmo rres now sys)))
   \<and> list_all mention_of
     (newCalls sys (snd (slack_thread_waiting j tts reason None rres sys)))
   \<and> list_all mention_of
     (newCalls sys (snd (slack_thread_complete j tts summary sugg None rres now sys)))
   \<and> list_all mention_of
     (newCalls sys (snd (slack_thread_fail j tts err logs None rres now sys)))
   \<and> list_all mention_of
     (newCalls sys (snd (cmd_start j (iv\<lparr>o_mention := None\<rparr>) pres now sys)))
   \<and> list_all (\<lambda>c. mention_of c = (o_hook_event iv \<noteq> Some ''PostToolUse''))
     (newCalls sys (snd (cmd_update j (iv\<lparr>o_mention := None\<rparr>) pres rres now0 now sys)))
   \<and> list_all (\<lambda>c. \<not> mention_of c)
     (newCalls sys (snd (cmd_waiting j (iv\<lparr>o_mention := None\<rparr>) pres rres now0 sys)))
   \<and> list_all (\<lambda>c. \<not> mention_of c)
     (newCalls sys (snd (cmd_complete j (iv\<lparr>o_mention := None\<rparr>) pres rres now0 now sys)))
   \<and> list_all (\<lambda>c. \<not> mention_of c)
     (newCalls sys (snd (cmd_fail j (iv\<lparr>o_mention := None\<rparr>) pres rres now0 now sys)))"
  using tool_mentions [of None sys j]
    cmd_start_mentions [of "iv\<lparr>o_mention := None\<rparr>" sys j]
    cmd_update_mentions [of "iv\<lparr>o_mention := None\<rparr>" sys j]
    cmd_waiting_mentions [of "iv\<lparr>o_mention := None\<rparr>" sys j]
    cmd_complete_mentions [of "iv\<lparr>o_mention := None\<rparr>" sys j]
    cmd_fail_mentions [of "iv\<lparr>o_mention := None\<rparr>" sys j]
  by (simp add: cli_mention_def mentionDefault_def)

text \<open>
  The theorem at concrete inputs, where each step does send a message: the server's
  \<open>start\<close> and \<open>update\<close>, and the command line's \<open>update\<close> for a \<open>PostToolUse\<close> event.
\<close>

theorem mention_defaults_witness:
  "newCalls exampleSystem
      (snd (slack_thread_start ''j1'' ''Deploy'' None None None (okPost ''C0'' ''100.1'') ''t0''
              exampleSystem))
     = [ParentMessage ''C0'' ''Deploy'' None True]
   \<and> list_all mention_of
       (newCalls exampleSystem
          (snd (slack_thread_start ''j1'' ''Deploy'' None None None (okPost ''C0'' ''100.1'') ''t0''
                  exampleSystem)))
   \<and> newCalls exampleSystem
        (snd (slack_thread_update ''j1'' ''building'' (Some ''100.1'') None None None None
                (okReply ''100.2'') ''t1'' exampleSystem))
     = [ThreadReply ''C0'' ''100.1'' ''building'' Info False]
   \<and> list_all (\<lambda>c. \<not> mention_of c)
       (newCalls exampleSystem
          (snd (slack_thread_update ''j1'' ''building'' (Some ''100.1'') None None None None
                  (okReply ''100.2'') ''t1'' exampleSystem)))"
  using mention_defaults [of exampleSystem "''j1''" "''Deploy''" None None "okPost ''C0'' ''100.1''"
      "''t0''" "''building''" "Some ''100.1''" None None None "okReply ''100.2''"]
  by (simp add: example_defs store_defs client_defs tool_defs newCalls_def Let_def)

text \<open>
  Claim C7 as stated fails on the command line: \<open>complete\<close> without \<open>--mention\<close>, for a job
  started a moment before, posts its completion message without requesting a mention.
\<close>

theorem cli_complete_default_mention_counterexample:
  "newCalls (snd (cmd_start ''j1'' noOptions (okPost ''C0'' ''100.1'') ''t0'' exampleSystem))
        (snd (cmd_complete ''j1'' noOptions failedPost (okReply ''100.2'') ''t1'' ''t2''
               (snd (cmd_start ''j1'' noOptions (okPost ''C0'' ''100.1'') ''t0'' exampleSystem))))
      = [CompleteMessage ''C0'' ''100.1'' ''Claude Code Task'' None None False]
   \<and> \<not> list_all mention_of
        (newCalls (snd (cmd_start ''j1'' noOptions (okPost ''C0'' ''100.1'') ''t0'' exampleSystem))
          (snd (cmd_complete ''j1'' noOptions failedPost (okReply ''100.2'') ''t1'' ''t2''
                 (snd (cmd_start ''j1'' noOptions (okPost ''C0'' ''100.1'') ''t0'' exampleSystem)))))"
  by (simp add: example_defs store_defs client_defs cli_defs newCalls_def Let_def fallbackTitle_def)


section \<open>Results of the steps\<close>

lemma startedSystem_eval:
  "startedSystem =
     \<lparr>store = \<lparr>threads = [(''j1'', \<lparr>jobId = ''j1'', channel = ''C0'', threadTs = ''100.1'',
                   title = ''Deploy'', status = Started, createdAt = ''t0'', updatedAt = ''t0'',
                   permalink = Some ''https://slack.example/100.1'', progressMessageTs = None\<rparr>)],
               persistPath = None, fs = (\<lambda>_. None)\<rparr>,
      slack = \<lparr>defaultChannel = ''C0'', waitingNotifications = [],
               sent = [ParentMessage ''C0'' ''Deploy'' None True]\<rparr>\<rparr>"
  by (simp add: startedSystem_def example_defs store_defs client_defs tool_defs Let_def)

lemma isTerminal_clearForPrompt [simp]:
  "isTerminal (store (clearForPrompt j iv sys)) k = isTerminal (store sys) k"
  by (cases "get (store sys) j")
     (auto simp add: clearForPrompt_def isTerminal_def get_clearProgressMessageTs split: option.split)

lemma threadTs_clearForPrompt [simp]:
  "map_option threadTs (get (store (clearForPrompt j iv sys)) k) = map_option threadTs (get (store sys) k)"
  by (cases "get (store sys) j")
     (auto simp add: clearForPrompt_def get_clearProgressMessageTs)

lemma fst_create:
  "fst (create j ch ts ttl pl now s) =
     \<lparr>jobId = j, channel = ch, threadTs = ts, title = ttl, status = Started,
      createdAt = now, updatedAt = now, permalink = pl, progressMessageTs = None\<rparr>"
  by (simp add: create_def Let_def)

lemma isTerminal_ensureThread [simp]:
  "isTerminal (store (snd (ensureThread j chan titleOverride cwdHint m pres now sys))) j
     = isTerminal (store sys) j"
  by (cases "get (store sys) j")
     (simp_all add: ensureThread_def postParentMessage_def Let_def isTerminal_def
        get_updateThreadTs get_create fst_create)

lemma ensureThread_result:
  "fst (ensureThread j chan titleOverride cwdHint m pres now sys) =
     (if truthy (map_option threadTs (get (store sys) j))
      then Inr (LazyInit (threadTs (the (get (store sys) j))) (channel (the (get (store sys) j)))
                  (title (the (get (store sys) j))) False)
      else if p_ok pres
      then Inr (LazyInit (p_ts pres) (p_channel pres)
                  (lazyTitle titleOverride (get (store sys) j) cwdHint) True)
      else Inl CreateThreadFailed)"
  by (simp add: ensureThread_def postParentMessage_def Let_def)

lemma tool_failures:
  assumes "\<not> r_ok rres" and "truthy (targetThreadTs tts (get (store sys) j))"
    and "\<not> isTerminal (store sys) j"
  shows "fst (slack_thread_update j msg tts lvl mention en tmo rres now sys) = Inr (OkResult False None None)"
    and "fst (slack_thread_waiting j tts reason mention rres sys) = Inr (OkResult False None None)"
    and "fst (slack_thread_complete j tts summary sugg mention rres now sys) = Inr (OkResult False None None)"
    and "fst (slack_thread_fail j tts err logs mention rres now sys) = Inr (OkResult False None None)"
  using assms
  by (simp_all add: slack_thread_update_def slack_thread_waiting_def slack_thread_complete_def
      slack_thread_fail_def postThreadReply_def postWaiting_def postComplete_def postFail_def
      Let_def)

lemma start_failures:
  assumes "get (store sys) j = None" and "\<not> p_ok pres"
  shows "fst (slack_thread_start j ttl ch meta mention pres now sys) = Inl SlackPostFailed"
    and "o_silent iv \<noteq> Some ''true'' \<Longrightarrow> \<not> arg_silent iv \<Longrightarrow> o_meta iv \<noteq> Some None \<Longrightarrow>
         fst (cmd_start j iv pres now sys) = Inl SlackPostFailed"
  using assms
  by (simp_all add: slack_thread_start_def cmd_start_def postParentMessage_def Let_def)

lemma cli_results:
  "fst (cmd_update j iv pres rres now0 now sys) =
     (if \<not> truthy (updateMessage iv) then Inl MessageRequired
      else if \<not> truthy (map_option threadTs (get (store sys) j)) \<and> \<not> p_ok pres
      then Inl CreateThreadFailed
      else if isTerminal (store sys) j then Inr (OkResult False (Some cliTerminatedNote) None)
      else Inr (OkResult (r_ok rres) None (r_ts rres)))"
  "fst (cmd_waiting j iv pres rres now0 sys) =
     (if \<not> truthy (map_option threadTs (get (store sys) j)) \<and> \<not> p_ok pres
      then Inl CreateThreadFailed
      else if isTerminal (store sys) j then Inr (OkResult False (Some cliTerminatedNote) None)
      else Inr (OkResult (r_ok rres) None None))"
  "fst (cmd_complete j iv pres rres now0 now sys) =
     (if \<not> truthy (map_option threadTs (get (store sys) j)) \<and> \<not> p_ok pres
      then Inl CreateThreadFailed
      else if isTerminal (store sys) j then Inr (OkResult True (Some cliTerminatedNote) None)
      else Inr (OkResult (r_ok rres) None None))"
  "fst (cmd_fail j iv pres rres now0 now sys) =
     (if \<not> truthy (o_error iv) then Inl ErrorRequired
      else if \<not> truthy (map_option threadTs (get (store sys) j)) \<and> \<not> p_ok pres
      then Inl CreateThreadFailed
      else if isTerminal (store sys) j then Inr (OkResult True (Some cliTerminatedNote) None)
      else Inr (OkResult (r_ok rres) None None))"
proof -
  obtain r sys2 where e: "ensureThread j (cli_channel iv (slack sys)) (o_title iv) (o_cwd iv)
      (cli_mention ''update'' iv) pres now0 (clearForPrompt j iv sys) = (r, sys2)"
    by (cases "ensureThread j (cli_channel iv (slack sys)) (o_title iv) (o_cwd iv)
      (cli_mention ''update'' iv) pres now0 (clearForPrompt j iv sys)")
  from e ensureThread_result [of j "cli_channel iv (slack sys)" "o_title iv" "o_cwd iv"
      "cli_mention ''update'' iv" pres now0 "clearForPrompt j iv sys"]
    isTerminal_ensureThread [of j "cli_channel iv (slack sys)" "o_title iv" "o_cwd iv"
      "cli_mention ''update'' iv" pres now0 "clearForPrompt j iv sys"]
  show "fst (cmd_update j iv pres rres now0 now sys) =
     (if \<not> truthy (updateMessage iv) then Inl MessageRequired
      else if \<not> truthy (map_option threadTs (get (store sys) j)) \<and> \<not> p_ok pres
      then Inl CreateThreadFailed
      else if isTerminal (store sys) j then Inr (OkResult False (Some cliTerminatedNote) None)
      else Inr (OkResult (r_ok rres) None (r_ts rres)))"
    by (cases r) (auto simp add: cmd_update_unfold [OF e] Let_def split: if_splits)
next
  obtain r sys2 where e: "ensureThread j (cli_channel iv (slack sys)) (o_title iv) (o_cwd iv)
      (cli_mention ''waiting'' iv) pres now0 sys = (r, sys2)"
    by (cases "ensureThread j (cli_channel iv (slack sys)) (o_title iv) (o_cwd iv)
      (cli_mention ''waiting'' iv) pres now0 sys")
  from e ensureThread_result [of j "cli_channel iv (slack sys)" "o_title iv" "o_cwd iv"
      "cli_mention ''waiting'' iv" pres now0 sys]
    isTerminal_ensureThread [of j "cli_channel iv (slack sys)" "o_title iv" "o_cwd iv"
      "cli_mention ''waiting'' iv" pres now0 sys]
  show "fst (cmd_waiting j iv pres rres now0 sys) =
     (if \<not> truthy (map_option threadTs (get (store sys) j)) \<and> \<not> p_ok pres
      then Inl CreateThreadFailed
      else if isTerminal (store sys) j then Inr (OkResult False (Some cliTerminatedNote) None)
      else Inr (OkResult (r_ok rres) None None))"
    by (cases r) (auto simp add: cmd_waiting_unfold [OF e] split: if_splits)
next
  obtain r sys2 where e: "ensureThread j (cli_channel iv (slack sys)) (o_title iv) (o_cwd iv)
      (cli_mention ''complete'' iv) pres now0 sys = (r, sys2)"
    by (cases "ensureThread j (cli_channel iv (slack sys)) (o_title iv) (o_cwd iv)
      (cli_mention ''complete'' iv) pres now0 sys")
  from e ensureThread_result [of j "cli_channel iv (slack sys)" "o_title iv" "o_cwd iv"
      "cli_mention ''complete'' iv" pres now0 sys]
    isTerminal_ensureThread [of j "cli_channel iv (slack sys)" "o_title iv" "o_cwd iv"
      "cli_mention ''complete'' iv" pres now0 sys]
  show "fst (cmd_complete j iv pres rres now0 now sys) =
     (if \<not> truthy (map_option threadTs (get (store sys) j)) \<and> \<not> p_ok pres
      then Inl CreateThreadFailed
      else if isTerminal (store sys) j then Inr (OkResult True (Some cliTerminatedNote) None)
      else Inr (OkResult (r_ok rres) None None))"
    by (cases r) (auto simp add: cmd_complete_unfold [OF e] split: if_splits)
next
  obtain r sys2 where e: "ensureThread j (cli_channel iv (slack sys)) (o_title iv) (o_cwd iv)
      (cli_mention ''fail'' iv) pres now0 sys = (r, sys2)"
    by (cases "ensureThread j (cli_channel iv (slack sys)) (o_title iv) (o_cwd iv)
      (cli_mention ''fail'' iv) pres now0 sys")
  from e ensureThread_result [of j "cli_channel iv (slack sys)" "o_title iv" "o_cwd iv"
      "cli_mention ''fail'' iv" pres now0 sys]
    isTerminal_ensureThread [of j "cli_channel iv (slack sys)" "o_title iv" "o_cwd iv"
      "cli_mention ''fail'' iv" pres now0 sys]
  show "fst (cmd_fail j iv pres rres now0 now sys) =
     (if \<not> truthy (o_error iv) then Inl ErrorRequired
      else if \<not> truthy (map_option threadTs (get (store sys) j)) \<and> \<not> p_ok pres
      then Inl CreateThreadFailed
      else if isTerminal (store sys) j then Inr (OkResult True (Some cliTerminatedNote) None)
      else Inr (OkResult (r_ok rres) None None))"
    by (cases r) (auto simp add: cmd_fail_unfold [OF e] split: if_splits)
qed


text \<open>
  Claim C8 (upstream failure), as amended. When the platform answers a reply with a
  failure, \<open>update\<close>, \<open>waiting\<close>, \<open>complete\<close> and \<open>fail\<close> of both transports return the
  structured result with \<open>ok\<close> false (for a job that is not terminal and whose thread is
  resolved). A hard error is raised when the post of an anchor message fails: under
  \<open>start\<close>, and also under the command line's \<open>update\<close>, \<open>waiting\<close>, \<open>complete\<close> and
  \<open>fail\<close> when they have to create the thread lazily.
\<close>

theorem upstream_failure_results:
  "(\<not> r_ok rres \<and> truthy (targetThreadTs tts (get (store sys) j)) \<and> \<not> isTerminal (store sys) j
      \<longrightarrow> fst (slack_thread_update j msg tts lvl mention en tmo rres now sys)
            = Inr (OkResult False None None)
        \<and> fst (slack_thread_waiting j tts reason mention rres sys) = Inr (OkResult False None None)
        \<and> fst (slack_thread_complete j tts summary sugg mention rres now sys)
            = Inr (OkResult False None None)
        \<and> fst (slack_thread_fail j tts err logs mention rres now sys)
            = Inr (OkResult False None None))
   \<and> (\<not> r_ok rres \<and> (truthy (map_option threadTs (get (store sys) j)) \<or> p_ok pres)
        \<and> \<not> isTerminal (store sys) j
      \<longrightarrow> (truthy (updateMessage iv) \<longrightarrow>
             fst (cmd_update j iv pres rres now0 now sys) = Inr (OkResult False None (r_ts rres)))
        \<and> fst (cmd_waiting j iv pres rres now0 sys) = Inr (OkResult False None None)
        \<and> fst (cmd_complete j iv pres rres now0 now sys) = Inr (OkResult False None None)
        \<and> (truthy (o_error iv) \<longrightarrow>
             fst (cmd_fail j iv pres rres now0 now sys) = Inr (OkResult False None None)))
   \<and> (get (store sys) j = None \<and> \<not> p_ok pres
      \<longrightarrow> fst (slack_thread_start j ttl ch meta mention pres now sys) = Inl SlackPostFailed
        \<and> (o_silent iv \<noteq> Some ''true'' \<and> \<not> arg_silent iv \<and> o_meta iv \<noteq> Some None \<longrightarrow>
             fst (cmd_start j iv pres now sys) = Inl SlackPostFailed))
   \<and> (\<not> truthy (map_option threadTs (get (store sys) j)) \<and> \<not> p_ok pres
      \<longrightarrow> (truthy (updateMessage iv) \<longrightarrow>
             fst (cmd_update j iv pres rres now0 now sys) = Inl CreateThreadFailed)
        \<and> fst (cmd_waiting j iv pres rres now0 sys) = Inl CreateThreadFailed
        \<and> fst (cmd_complete j iv pres rres now0 now sys) = Inl CreateThreadFailed
        \<and> (truthy (o_error iv) \<longrightarrow>
             fst (cmd_fail j iv pres rres now0 now sys) = Inl CreateThreadFailed))"
proof (intro conjI impI)
  assume a: "\<not> r_ok rres \<and> truthy (targetThreadTs tts (get (store sys) j)) \<and> \<not> isTerminal (store sys) j"
  then have a1: "\<not> r_ok rres" and a2: "truthy (targetThreadTs tts (get (store sys) j))"
    and a3: "\<not> isTerminal (store sys) j" by simp_all
  show "fst (slack_thread_update j msg tts lvl mention en tmo rres now sys) = Inr (OkResult False None None)"
    by (rule tool_failures(1) [OF a1 a2 a3])
  show "fst (slack_thread_waiting j tts reason mention rres sys) = Inr (OkResult False None None)"
    by (rule tool_failures(2) [OF a1 a2 a3])
  show "fst (slack_thread_complete j tts summary sugg mention rres now sys) = Inr (OkResult False None None)"
    by (rule tool_failures(3) [OF a1 a2 a3])
  show "fst (slack_thread_fail j tts err logs mention rres now sys) = Inr (OkResult False None None)"
    by (rule tool_failures(4) [OF a1 a2 a3])
next
  assume b: "\<not> r_ok rres \<and> (truthy (map_option threadTs (get (store sys) j)) \<or> p_ok pres)
      \<and> \<not> isTerminal (store sys) j"
  { assume "truthy (updateMessage iv)"
    with b show "fst (cmd_update j iv pres rres now0 now sys) = Inr (OkResult False None (r_ts rres))"
      by (auto simp add: cli_results(1)) }
  from b show "fst (cmd_waiting j iv pres rres now0 sys) = Inr (OkResult False None None)"
    by (auto simp add: cli_results(2))
  from b show "fst (cmd_complete j iv pres rres now0 now sys) = Inr (OkResult False None None)"
    by (auto simp add: cli_results(3))
  { assume "truthy (o_error iv)"
    with b show "fst (cmd_fail j iv pres rres now0 now sys) = Inr (OkResult False None None)"
      by (auto simp add: cli_results(4)) }
next
  assume c: "get (store sys) j = None \<and> \<not> p_ok pres"
  then show "fst (slack_thread_start j ttl ch meta mention pres now sys) = Inl SlackPostFailed"
    by (simp add: start_failures(1))
  { assume "o_silent iv \<noteq> Some ''true'' \<and> \<not> arg_silent iv \<and> o_meta iv \<noteq> Some None"
    with c show "fst (cmd_start j iv pres now sys) = Inl SlackPostFailed"
      by (simp add: start_failures(2)) }
next
  assume d: "\<not> truthy (map_option threadTs (get (store sys) j)) \<and> \<not> p_ok pres"
  { assume "truthy (updateMessage iv)"
    with d show "fst (cmd_update j iv pres rres now0 now sys) = Inl CreateThreadFailed"
      by (simp add: cli_results(1)) }
  from d show "fst (cmd_waiting j iv pres rres now0 sys) = Inl CreateThreadFailed"
    by (simp add: cli_results(2))
  from d show "fst (cmd_complete j iv pres rres now0 now sys) = Inl CreateThreadFailed"
    by (simp add: cli_results(3))
  { assume "truthy (o_error iv)"
    with d show "fst (cmd_fail j iv pres rres now0 now sys) = Inl CreateThreadFailed"
      by (simp add: cli_results(4)) }
qed


theorem upstream_failure_results_witness:
  "\<not> r_ok failedReply \<and> truthy (targetThreadTs None (get (store startedSystem) ''j1''))
   \<and> \<not> isTerminal (store startedSystem) ''j1''
   \<and> fst (slack_thread_update ''j1'' ''building'' None None None None None failedReply ''t1''
             startedSystem) = Inr (OkResult False None None)
   \<and> fst (cmd_complete ''j1'' noOptions failedPost failedReply ''t1'' ''t1'' startedSystem)
       = Inr (OkResult False None None)
   \<and> get (store exampleSystem) ''j1'' = None \<and> \<not> p_ok failedPost
   \<and> fst (slack_thread_start ''j1'' ''Deploy'' None None None failedPost ''t0'' exampleSystem)
       = Inl SlackPostFailed
   \<and> fst (cmd_waiting ''j1'' noOptions failedPost failedReply ''t1'' exampleSystem)
       = Inl CreateThreadFailed"
proof -
  have h1: "\<not> r_ok failedReply \<and> truthy (targetThreadTs None (get (store startedSystem) ''j1''))
      \<and> \<not> isTerminal (store startedSystem) ''j1''"
    by (simp add: startedSystem_eval failedReply_def targetThreadTs_def js_or_def get_def
        isTerminal_def)
  have h2: "\<not> r_ok failedReply \<and> (truthy (map_option threadTs (get (store startedSystem) ''j1''))
      \<or> p_ok failedPost) \<and> \<not> isTerminal (store startedSystem) ''j1''"
    by (simp add: startedSystem_eval failedReply_def get_def isTerminal_def)
  have h3: "get (store exampleSystem) ''j1'' = None \<and> \<not> p_ok failedPost"
    by (simp add: example_defs get_def)
  have h4: "\<not> truthy (map_option threadTs (get (store exampleSystem) ''j1'')) \<and> \<not> p_ok failedPost"
    by (simp add: example_defs get_def)
  note A = upstream_failure_results [where sys = startedSystem and j = "''j1''"
      and rres = failedReply and tts = None and pres = failedPost and iv = noOptions
      and msg = "''building''" and lvl = None and mention = None and en = None and tmo = None
      and now = "''t1''" and now0 = "''t1''"]
  note B = upstream_failure_results [where sys = exampleSystem and j = "''j1''"
      and rres = failedReply and pres = failedPost and iv = noOptions
      and ttl = "''Deploy''" and ch = None and meta = None and mention = None
      and now = "''t0''" and now0 = "''t1''"]
  have a: "fst (slack_thread_update ''j1'' ''building'' None None None None None failedReply ''t1''
             startedSystem) = Inr (OkResult False None None)"
    using A h1 by blast
  have b: "fst (cmd_complete ''j1'' noOptions failedPost failedReply ''t1'' ''t1'' startedSystem)
       = Inr (OkResult False None None)"
    using A h2 by blast
  have c: "fst (slack_thread_start ''j1'' ''Deploy'' None None None failedPost ''t0'' exampleSystem)
       = Inl SlackPostFailed"
    using B h3 by blast
  have d: "fst (cmd_waiting ''j1'' noOptions failedPost failedReply ''t1'' exampleSystem)
       = Inl CreateThreadFailed"
    using B h4 by blast
  from a b c d h1 h3 show ?thesis by blast
qed

text \<open>
  Claim C8 as stated fails: the command line's \<open>update\<close> for a job without a thread
  raises a hard error when the lazily posted anchor message fails.
\<close>

theorem cli_update_lazy_failure_counterexample:
  "fst (cmd_update ''j1'' (noOptions\<lparr>o_message := Some ''building''\<rparr>) failedPost
          (okReply ''100.2'') ''t0'' ''t1'' exampleSystem) = Inl CreateThreadFailed"
  by (simp add: example_defs store_defs client_defs cli_defs Let_def)


section \<open>When the ledger is written\<close>

lemma tool_stores:
  "\<not> p_ok pres \<Longrightarrow> store (snd (slack_thread_start j ttl ch meta mention pres now sys)) = store sys"
  "store (snd (slack_thread_waiting j tts reason mention rres sys)) = store sys"
  "\<not> r_ok rres \<Longrightarrow> store (snd (slack_thread_complete j tts summary sugg mention rres now sys)) = store sys"
  "\<not> r_ok rres \<Longrightarrow> store (snd (slack_thread_fail j tts err logs mention rres now sys)) = store sys"
  by (simp_all add: slack_thread_start_def slack_thread_waiting_def slack_thread_complete_def
      slack_thread_fail_def postParentMessage_def postWaiting_def postComplete_def postFail_def
      Let_def split: option.split)

lemma tool_update_store:
  assumes "truthy (targetThreadTs tts (get (store sys) j))" and "\<not> isTerminal (store sys) j"
  shows "store (snd (slack_thread_update j msg tts lvl mention en tmo rres now sys))
           = (if get (store sys) j \<noteq> None then snd (updateStatus j InProgress now (store sys))
              else store sys)"
  using assms by (simp add: slack_thread_update_def postThreadReply_def Let_def)

lemma cmd_start_store:
  "\<not> p_ok pres \<Longrightarrow> o_silent iv \<noteq> Some ''true'' \<Longrightarrow> \<not> arg_silent iv \<Longrightarrow>
     store (snd (cmd_start j iv pres now sys)) = store sys"
  by (simp add: cmd_start_def postParentMessage_def Let_def split: option.split)

lemma ensureThread_store_failed:
  "\<not> p_ok pres \<Longrightarrow> store (snd (ensureThread j chan titleOverride cwdHint m pres now sys)) = store sys"
  by (simp add: ensureThread_def postParentMessage_def Let_def)

lemma cmd_waiting_store:
  assumes "\<not> r_ok rres"
  shows "store (snd (cmd_waiting j iv pres rres now0 sys))
     = store (snd (ensureThread j (cli_channel iv (slack sys)) (o_title iv) (o_cwd iv)
                     (cli_mention ''waiting'' iv) pres now0 sys))"
proof -
  obtain r sys2 where e: "ensureThread j (cli_channel iv (slack sys)) (o_title iv) (o_cwd iv)
      (cli_mention ''waiting'' iv) pres now0 sys = (r, sys2)"
    by (cases "ensureThread j (cli_channel iv (slack sys)) (o_title iv) (o_cwd iv)
      (cli_mention ''waiting'' iv) pres now0 sys")
  with assms show ?thesis
    by (cases r) (simp_all add: cmd_waiting_unfold [OF e])
qed

lemma cmd_complete_store:
  assumes "\<not> r_ok rres"
  shows "store (snd (cmd_complete j iv pres rres now0 now sys))
     = store (snd (ensureThread j (cli_channel iv (slack sys)) (o_title iv) (o_cwd iv)
                     (cli_mention ''complete'' iv) pres now0 sys))"
proof -
  obtain r sys2 where e: "ensureThread j (cli_channel iv (slack sys)) (o_title iv) (o_cwd iv)
      (cli_mention ''complete'' iv) pres now0 sys = (r, sys2)"
    by (cases "ensureThread j (cli_channel iv (slack sys)) (o_title iv) (o_cwd iv)
      (cli_mention ''complete'' iv) pres now0 sys")
  with assms show ?thesis
    by (cases r) (simp_all add: cmd_complete_unfold [OF e])
qed

lemma cmd_fail_store:
  assumes "\<not> r_ok rres" and "truthy (o_error iv)"
  shows "store (snd (cmd_fail j iv pres rres now0 now sys))
     = store (snd (ensureThread j (cli_channel iv (slack sys)) (o_title iv) (o_cwd iv)
                     (cli_mention ''fail'' iv) pres now0 sys))"
proof -
  obtain r sys2 where e: "ensureThread j (cli_channel iv (slack sys)) (o_title iv) (o_cwd iv)
      (cli_mention ''fail'' iv) pres now0 sys = (r, sys2)"
    by (cases "ensureThread j (cli_channel iv (slack sys)) (o_title iv) (o_cwd iv)
      (cli_mention ''fail'' iv) pres now0 sys")
  with assms show ?thesis
    by (cases r) (simp_all add: cmd_fail_unfold [OF e])
qed

lemma cmd_update_store:
  assumes "\<not> r_ok rres" and "truthy (updateMessage iv)"
    and "truthy (map_option threadTs (get (store sys) j)) \<or> p_ok pres"
    and "\<not> isTerminal (store sys) j"
  shows "store (snd (cmd_update j iv pres rres now0 now sys))
     = snd (updateStatus j InProgress now
         (store (snd (ensureThread j (cli_channel iv (slack sys)) (o_title iv) (o_cwd iv)
                     (cli_mention ''update'' iv) pres now0 (clearForPrompt j iv sys)))))"
proof -
  obtain r sys2 where e: "ensureThread j (cli_channel iv (slack sys)) (o_title iv) (o_cwd iv)
      (cli_mention ''update'' iv) pres now0 (clearForPrompt j iv sys) = (r, sys2)"
    by (cases "ensureThread j (cli_channel iv (slack sys)) (o_title iv) (o_cwd iv)
      (cli_mention ''update'' iv) pres now0 (clearForPrompt j iv sys)")
  from e ensureThread_result [of j "cli_channel iv (slack sys)" "o_title iv" "o_cwd iv"
      "cli_mention ''update'' iv" pres now0 "clearForPrompt j iv sys"]
    isTerminal_ensureThread [of j "cli_channel iv (slack sys)" "o_title iv" "o_cwd iv"
      "cli_mention ''update'' iv" pres now0 "clearForPrompt j iv sys"] assms
  show ?thesis
    by (cases r) (auto simp add: cmd_update_unfold [OF e] Let_def split: if_splits)
qed

text \<open>
  Claim C6 (no speculative writes), as amended. In \<open>start\<close>, in the lazy creation of a
  thread, and in \<open>waiting\<close>, \<open>complete\<close> and \<open>fail\<close>, the ledger is written only after
  the platform has answered with success: when the answer is a failure the store is
  what it was before the call (for the command line: what the thread creation, itself
  confirmed, has left). The exception is \<open>update\<close>: it sets the status to in progress,
  with a new \<open>updatedAt\<close>, before its reply is sent, whatever the answer will be, and
  that write stays when the post fails (on the command line after the lazy creation and
  after a prompt has cleared the progress handle).
\<close>

theorem ledger_writes_and_outcomes:
  "(\<not> p_ok pres \<longrightarrow>
       store (snd (slack_thread_start j ttl ch meta mention pres now sys)) = store sys
     \<and> (o_silent iv \<noteq> Some ''true'' \<and> \<not> arg_silent iv \<longrightarrow>
          store (snd (cmd_start j iv pres now sys)) = store sys)
     \<and> store (snd (ensureThread j chan titleOverride cwdHint m pres now0 sys)) = store sys)
   \<and> store (snd (slack_thread_waiting j tts reason mention rres sys)) = store sys
   \<and> (\<not> r_ok rres \<longrightarrow>
       store (snd (slack_thread_complete j tts summary sugg mention rres now sys)) = store sys
     \<and> store (snd (slack_thread_fail j tts err logs mention rres now sys)) = store sys
     \<and> store (snd (cmd_waiting j iv pres rres now0 sys))
         = store (snd (ensureThread j (cli_channel iv (slack sys)) (o_title iv) (o_cwd iv)
                         (cli_mention ''waiting'' iv) pres now0 sys))
     \<and> store (snd (cmd_complete j iv pres rres now0 now sys))
         = store (snd (ensureThread j (cli_channel iv (slack sys)) (o_title iv) (o_cwd iv)
                         (cli_mention ''complete'' iv) pres now0 sys))
     \<and> (truthy (o_error iv) \<longrightarrow>
          store (snd (cmd_fail j iv pres rres now0 now sys))
            = store (snd (ensureThread j (cli_channel iv (slack sys)) (o_title iv) (o_cwd iv)
                            (cli_mention ''fail'' iv) pres now0 sys))))
   \<and> (get (store sys) j = Some st \<and> truthy (targetThreadTs tts (Some st))
        \<and> \<not> isTerminal (store sys) j \<longrightarrow>
       get (store (snd (slack_thread_update j msg tts lvl mention en tmo rres now sys))) j
         = Some (st\<lparr>status := InProgress, updatedAt := now\<rparr>))
   \<and> (\<not> r_ok rres \<and> truthy (updateMessage iv)
        \<and> (truthy (map_option threadTs (get (store sys) j)) \<or> p_ok pres)
        \<and> \<not> isTerminal (store sys) j \<longrightarrow>
       store (snd (cmd_update j iv pres rres now0 now sys))
         = snd (updateStatus j InProgress now
             (store (snd (ensureThread j (cli_channel iv (slack sys)) (o_title iv) (o_cwd iv)
                            (cli_mention ''update'' iv) pres now0 (clearForPrompt j iv sys))))))"
proof (intro conjI impI)
  assume "get (store sys) j = Some st \<and> truthy (targetThreadTs tts (Some st))
        \<and> \<not> isTerminal (store sys) j"
  then show "get (store (snd (slack_thread_update j msg tts lvl mention en tmo rres now sys))) j
         = Some (st\<lparr>status := InProgress, updatedAt := now\<rparr>)"
    by (simp add: tool_update_store get_updateStatus)
qed (simp_all add: tool_stores cmd_start_store ensureThread_store_failed cmd_waiting_store
      cmd_complete_store cmd_fail_store cmd_update_store)

theorem ledger_writes_and_outcomes_witness:
  "\<not> p_ok failedPost
   \<and> store (snd (slack_thread_start ''j2'' ''Build'' None None None failedPost ''t1'' startedSystem))
       = store startedSystem
   \<and> store (snd (ensureThread ''j2'' ''C0'' None None True failedPost ''t1'' startedSystem))
       = store startedSystem
   \<and> \<not> r_ok failedReply
   \<and> store (snd (slack_thread_complete ''j1'' None None None None failedReply ''t1'' startedSystem))
       = store startedSystem
   \<and> truthy (targetThreadTs None (get (store startedSystem) ''j1''))
   \<and> \<not> isTerminal (store startedSystem) ''j1''
   \<and> map_option status
        (get (store (snd (slack_thread_update ''j1'' ''building'' None None None None None
                            failedReply ''t1'' startedSystem))) ''j1'') = Some InProgress
   \<and> truthy (updateMessage (noOptions\<lparr>o_message := Some ''building''\<rparr>))
   \<and> truthy (map_option threadTs (get (store startedSystem) ''j1''))
   \<and> map_option status
        (get (store (snd (cmd_update ''j1'' (noOptions\<lparr>o_message := Some ''building''\<rparr>)
                            failedPost failedReply ''t1'' ''t1'' startedSystem))) ''j1'')
       = Some InProgress"
proof -
  let ?st = "\<lparr>jobId = ''j1'', channel = ''C0'', threadTs = ''100.1'',
                   title = ''Deploy'', status = Started, createdAt = ''t0'', updatedAt = ''t0'',
                   permalink = Some ''https://slack.example/100.1'', progressMessageTs = None\<rparr>"
  let ?iv = "noOptions\<lparr>o_message := Some ''building''\<rparr>"
  have g: "get (store startedSystem) ''j1'' = Some ?st"
    by (simp add: startedSystem_eval get_def)
  have h1: "\<not> p_ok failedPost" and h2: "\<not> r_ok failedReply"
    by (simp_all add: failedPost_def failedReply_def)
  have h3: "truthy (targetThreadTs None (Some ?st))"
    by (simp add: targetThreadTs_def js_or_def)
  have h4: "\<not> isTerminal (store startedSystem) ''j1''"
    by (simp add: isTerminal_def g)
  have h5: "truthy (updateMessage ?iv)"
    by (simp add: cli_defs noOptions_def)
  have h6: "truthy (map_option threadTs (get (store startedSystem) ''j1''))"
    by (simp add: g)
  note A = ledger_writes_and_outcomes [where sys = startedSystem and j = "''j1''" and st = ?st
      and pres = failedPost and rres = failedReply and tts = None and iv = ?iv
      and msg = "''building''" and lvl = None and mention = None and en = None and tmo = None
      and summary = None and sugg = None and now = "''t1''" and now0 = "''t1''"]
  note B = ledger_writes_and_outcomes [where sys = startedSystem and j = "''j2''"
      and pres = failedPost and ttl = "''Build''" and ch = None and meta = None and mention = None
      and now = "''t1''" and now0 = "''t1''" and chan = "''C0''" and titleOverride = None
      and cwdHint = None and m = True]
  have a: "store (snd (slack_thread_start ''j2'' ''Build'' None None None failedPost ''t1'' startedSystem))
       = store startedSystem"
    and b: "store (snd (ensureThread ''j2'' ''C0'' None None True failedPost ''t1'' startedSystem))
       = store startedSystem"
    using B h1 by blast+
  have c: "store (snd (slack_thread_complete ''j1'' None None None None failedReply ''t1'' startedSystem))
       = store startedSystem"
    using A h2 by blast
  have d: "get (store (snd (slack_thread_update ''j1'' ''building'' None None None None None
                            failedReply ''t1'' startedSystem))) ''j1''
             = Some (?st\<lparr>status := InProgress, updatedAt := ''t1''\<rparr>)"
    using A g h3 h4 by blast
  have e: "store (snd (cmd_update ''j1'' ?iv failedPost failedReply ''t1'' ''t1'' startedSystem))
         = snd (updateStatus ''j1'' InProgress ''t1''
             (store (snd (ensureThread ''j1'' (cli_channel ?iv (slack startedSystem)) (o_title ?iv)
                            (o_cwd ?iv) (cli_mention ''update'' ?iv) failedPost ''t1''
                            (clearForPrompt ''j1'' ?iv startedSystem)))))"
    using A h2 h4 h5 h6 by blast
  have f: "map_option status
        (get (store (snd (cmd_update ''j1'' ?iv failedPost failedReply ''t1'' ''t1'' startedSystem))) ''j1'')
       = Some InProgress"
    unfolding e
    by (simp add: get_updateStatus ensureThread_existing [OF g] clearForPrompt_def fromPrompt_def
        noOptions_def g)
  from a b c d f h1 h2 h3 h4 h5 h6 g show ?thesis by simp
qed

text \<open>
  Claim C6 as stated fails for \<open>update\<close>: the reply fails, the tool reports \<open>ok\<close> false,
  and the ledger has nevertheless moved the job from started to in progress.
\<close>

theorem update_writes_before_post_counterexample:
  "map_option status (get (store startedSystem) ''j1'') = Some Started
   \<and> fst (slack_thread_update ''j1'' ''building'' None None None None None failedReply ''t1''
            startedSystem) = Inr (OkResult False None None)
   \<and> map_option status
        (get (store (snd (slack_thread_update ''j1'' ''building'' None None None None None
                            failedReply ''t1'' startedSystem))) ''j1'') = Some InProgress
   \<and> store (snd (slack_thread_update ''j1'' ''building'' None None None None None
                    failedReply ''t1'' startedSystem)) \<noteq> store startedSystem"
  by (simp add: startedSystem_eval example_defs store_defs client_defs tool_defs Let_def)



section \<open>Terminal jobs\<close>

text \<open>
  The tools of the server leave a terminal job alone: nothing is sent and the store is
  unchanged. So do the commands of the command line when the job has a thread handle
  (\<open>update\<close> may still clear the progress handle for a prompt, which touches neither
  the status nor \<open>updatedAt\<close>).
\<close>

lemma terminal_absorption_tools:
  assumes "isTerminal (store sys) j"
  shows "newCalls sys (snd (slack_thread_update j msg tts lvl mention en tmo rres now sys)) = []
       \<and> store (snd (slack_thread_update j msg tts lvl mention en tmo rres now sys)) = store sys"
    and "newCalls sys (snd (slack_thread_waiting j tts reason mention rres sys)) = []
       \<and> store (snd (slack_thread_waiting j tts reason mention rres sys)) = store sys"
    and "newCalls sys (snd (slack_thread_complete j tts summary sugg mention rres now sys)) = []
       \<and> store (snd (slack_thread_complete j tts summary sugg mention rres now sys)) = store sys"
    and "newCalls sys (snd (slack_thread_fail j tts err logs mention rres now sys)) = []
       \<and> store (snd (slack_thread_fail j tts err logs mention rres now sys)) = store sys"
  using assms
  by (auto simp add: slack_thread_update_def slack_thread_waiting_def slack_thread_complete_def
      slack_thread_fail_def isTerminal_def newCalls_def Let_def split: option.splits)

lemma terminal_absorption_cli:
  assumes "isTerminal (store sys) j" and "truthy (map_option threadTs (get (store sys) j))"
  shows "snd (cmd_update j iv pres rres now0 now sys) = clearForPrompt j iv sys"
    and "snd (cmd_waiting j iv pres rres now0 sys) = sys"
    and "snd (cmd_complete j iv pres rres now0 now sys) = sys"
    and "snd (cmd_fail j iv pres rres now0 now sys) = sys"
proof -
  from assms obtain st where g: "get (store sys) j = Some st" and t: "threadTs st \<noteq> []"
    by (cases "get (store sys) j") auto
  have gc: "get (store (clearForPrompt j iv sys)) j
              = Some (if fromPrompt iv then st\<lparr>progressMessageTs := None\<rparr> else st)"
    by (simp add: clearForPrompt_def get_clearProgressMessageTs g)
  have tc: "threadTs (if fromPrompt iv then st\<lparr>progressMessageTs := None\<rparr> else st) \<noteq> []"
    using t by simp
  show "snd (cmd_update j iv pres rres now0 now sys) = clearForPrompt j iv sys"
    using assms(1) by (simp add: cmd_update_unfold [OF ensureThread_existing [OF gc tc]])
  show "snd (cmd_waiting j iv pres rres now0 sys) = sys"
    using assms(1) by (simp add: cmd_waiting_unfold [OF ensureThread_existing [OF g t]])
  show "snd (cmd_complete j iv pres rres now0 now sys) = sys"
    using assms(1) by (simp add: cmd_complete_unfold [OF ensureThread_existing [OF g t]])
  show "snd (cmd_fail j iv pres rres now0 now sys) = sys"
    using assms(1) by (simp add: cmd_fail_unfold [OF ensureThread_existing [OF g t]])
qed

lemma clearForPrompt_keeps:
  "newCalls sys (clearForPrompt j iv sys) = []"
  "map_option status (get (store (clearForPrompt j iv sys)) k) = map_option status (get (store sys) k)"
  "map_option updatedAt (get (store (clearForPrompt j iv sys)) k) = map_option updatedAt (get (store sys) k)"
  by (cases "get (store sys) j"; simp add: newCalls_def clearForPrompt_def get_clearProgressMessageTs)+

lemma afterSilentStart_file:
  "fs (store afterSilentStart) ''state.json'' =
     Some (Json [\<lparr>jobId = ''j1'', channel = ''C0'', threadTs = [], title = ''Deploy'',
                  status = Started, createdAt = ''t0'', updatedAt = ''t0'', permalink = None,
                  progressMessageTs = None\<rparr>])"
  by (simp add: afterSilentStart_def example_defs store_defs cli_defs Let_def loadFromDisk_def)

lemma afterExplicitComplete_file:
  "fs (store afterExplicitComplete) ''state.json'' =
     Some (Json [\<lparr>jobId = ''j1'', channel = ''C0'', threadTs = [], title = ''Deploy'',
                  status = Completed, createdAt = ''t0'', updatedAt = ''t1'', permalink = None,
                  progressMessageTs = None\<rparr>])"
  by (simp add: afterExplicitComplete_def afterSilentStart_file example_defs store_defs client_defs
      tool_defs Let_def loadFromDisk_def)

lemma restartedCli_eval:
  "restartedCli =
     \<lparr>store = \<lparr>threads = [(''j1'', \<lparr>jobId = ''j1'', channel = ''C0'', threadTs = [], title = ''Deploy'',
                  status = Completed, createdAt = ''t0'', updatedAt = ''t1'', permalink = None,
                  progressMessageTs = None\<rparr>)],
               persistPath = Some ''state.json'', fs = fs (store afterExplicitComplete)\<rparr>,
      slack = \<lparr>defaultChannel = ''C0'', waitingNotifications = [], sent = []\<rparr>\<rparr>"
  by (simp add: restartedCli_def afterExplicitComplete_file newSystem_def ThreadStore_new_def
      loadFromDisk_def)

text \<open>
  Claim C1 (terminal absorption) does not hold for a completed job whose stored thread
  handle is empty, a state the code itself produces in the scenario above. The command
  line ensures the thread before it looks at the status, so \<open>update\<close> and \<open>complete\<close>
  post a new top-level message for the completed job and only then report that the job
  has already terminated.
\<close>

theorem terminal_job_lazy_post:
  "isTerminal (store restartedCli) ''j1''
   \<and> fst (cmd_update ''j1'' (noOptions\<lparr>o_message := Some ''more''\<rparr>) (okPost ''C0'' ''200.1'')
            (okReply ''200.2'') ''t2'' ''t3'' restartedCli)
       = Inr (OkResult False (Some cliTerminatedNote) None)
   \<and> newCalls restartedCli
        (snd (cmd_update ''j1'' (noOptions\<lparr>o_message := Some ''more''\<rparr>) (okPost ''C0'' ''200.1'')
                (okReply ''200.2'') ''t2'' ''t3'' restartedCli))
       = [ParentMessage ''C0'' ''Deploy'' None True]
   \<and> newCalls restartedCli
        (snd (cmd_complete ''j1'' noOptions (okPost ''C0'' ''200.1'')
                (okReply ''200.2'') ''t2'' ''t3'' restartedCli))
       = [ParentMessage ''C0'' ''Deploy'' None False]"
  by (simp add: restartedCli_eval okPost_def okReply_def noOptions_def store_defs client_defs
      cli_defs newCalls_def Let_def)


section \<open>The watchdog\<close>

text \<open>
  \<open>complete\<close> and \<open>fail\<close> cancel the watchdog of their job once the thread is resolved:
  a timer firing afterwards finds nothing and posts nothing.
\<close>

lemma map_of_cancelWaitingMonitor [simp]:
  "map_of (waitingNotifications (cancelWaitingMonitor j c)) j = None"
  by (cases "map_of (waitingNotifications c) j")
     (simp_all add: cancelWaitingMonitor_def delete_conv')

lemma timerFires_cancelled [simp]: "timerFires j res (cancelWaitingMonitor j c) = cancelWaitingMonitor j c"
  by (simp add: timerFires_def)

lemma watchdog_cancelled_by_complete_fail:
  assumes "truthy (targetThreadTs tts (get (store sys) j))"
  shows "timerFires j res (slack (snd (slack_thread_complete j tts summary sugg mention rres now sys)))
           = slack (snd (slack_thread_complete j tts summary sugg mention rres now sys))"
    and "timerFires j res (slack (snd (slack_thread_fail j tts err logs mention rres now sys)))
           = slack (snd (slack_thread_fail j tts err logs mention rres now sys))"
  using assms
  by (simp_all add: slack_thread_complete_def slack_thread_fail_def postComplete_def postFail_def
      Let_def timerFires_def)

text \<open>
  Claim C4 (watchdog cancellation) does not hold for \<open>waiting\<close>: the tool never cancels
  the monitor. After an update has armed the watchdog and a waiting message has been
  posted, the timer is still pending, and when it fires the inactivity notice is posted.
\<close>

theorem waiting_keeps_watchdog:
  "map_of (waitingNotifications (slack watchedSystem)) ''j1''
     = Some \<lparr>wn_jobId = ''j1'', wn_channel = ''C0'', wn_threadTs = ''100.1'', wn_delay = 30000,
             notified = False\<rparr>
   \<and> fst (slack_thread_waiting ''j1'' None (Some ''need approval'') None (okReply ''100.3'')
            watchedSystem) = Inr (OkResult True None None)
   \<and> sent (timerFires ''j1'' (okReply ''100.4'')
        (slack (snd (slack_thread_waiting ''j1'' None (Some ''need approval'') None
                       (okReply ''100.3'') watchedSystem))))
     = sent (slack watchedSystem)
       @ [WaitingMessage ''C0'' ''100.1'' ''Deploy'' ''need approval'' True,
          ThreadReply ''C0'' ''100.1'' stalledNotice Warn False]"
  by (simp add: watchedSystem_def startedSystem_eval okReply_def store_defs client_defs tool_defs
      Let_def defaultWaitingTimeoutMs_def)


section \<open>Coalescing of progress replies\<close>

lemma upsertRequested_useUpsert:
  "upsertRequested iv \<Longrightarrow> useUpsert iv st j \<and> clearForPrompt j iv sys = sys
     \<and> o_hook_event iv \<noteq> Some ''Stop''"
  by (simp add: upsertRequested_def useUpsert_def fromStop_def clearForPrompt_def)

lemma getProgressMessageTs_updateStatus [simp]:
  "getProgressMessageTs (snd (updateStatus j stat now s)) k = getProgressMessageTs s k"
  by (cases "get s j") (auto simp add: getProgressMessageTs_def get_updateStatus)

lemma cmd_update_existing:
  assumes g: "get (store sys) j = Some st" and t: "threadTs st \<noteq> []"
    and nt: "\<not> isTerminal (store sys) j"
    and u: "upsertRequested iv" and m: "truthy (updateMessage iv)"
    and ok: "r_ok rres" and h: "r_ts rres = Some h" and hn: "h \<noteq> []"
  shows "cmd_update j iv pres rres now0 now sys =
     (Inr (OkResult True None (Some h)),
      \<lparr>store = updateProgressMessageTs j h (snd (updateStatus j InProgress now (store sys))),
       slack = (slack sys)\<lparr>sent := sent (slack sys) @
         [case progressMessageTs st of
            None \<Rightarrow> ThreadReply (channel st) (threadTs st) (the (updateMessage iv))
                      (levelOf (o_level iv)) (cli_mention ''update'' iv)
          | Some e \<Rightarrow> EditReply (channel st) (threadTs st) (the (updateMessage iv))
                      (levelOf (o_level iv)) (cli_mention ''update'' iv) e]\<rparr>\<rparr>)"
proof -
  from upsertRequested_useUpsert [OF u, where st = "store sys" and j = j and sys = sys]
  have up: "useUpsert iv (store sys) j" and c: "clearForPrompt j iv sys = sys"
    and ns: "o_hook_event iv \<noteq> Some ''Stop''" by simp_all
  have e: "ensureThread j (cli_channel iv (slack sys)) (o_title iv) (o_cwd iv)
             (cli_mention ''update'' iv) pres now0 (clearForPrompt j iv sys)
           = (Inr (LazyInit (threadTs st) (channel st) (title st) False), sys)"
    unfolding c by (rule ensureThread_existing [OF g t])
  have p: "getProgressMessageTs (store sys) j = progressMessageTs st"
    by (simp add: getProgressMessageTs_def g)
  show ?thesis
    using nt m ok h hn up ns p
    by (simp add: cmd_update_unfold [OF e] c Let_def split: option.split)
qed

lemma cmd_update_lazy:
  assumes g: "\<not> truthy (map_option threadTs (get (store sys) j))"
    and nt: "\<not> isTerminal (store sys) j"
    and np: "getProgressMessageTs (store sys) j = None"
    and u: "upsertRequested iv" and m: "truthy (updateMessage iv)"
    and pok: "p_ok pres"
    and ok: "r_ok rres" and h: "r_ts rres = Some h" and hn: "h \<noteq> []"
  shows "cmd_update j iv pres rres now0 now sys =
     (Inr (OkResult True None (Some h)),
      \<lparr>store = updateProgressMessageTs j h (snd (updateStatus j InProgress now
                 (if get (store sys) j \<noteq> None
                  then updateThreadTs j (p_ts pres) (p_permalink pres) (store sys)
                  else snd (create j (p_channel pres) (p_ts pres)
                              (lazyTitle (o_title iv) (get (store sys) j) (o_cwd iv))
                              (p_permalink pres) now0 (store sys))))),
       slack = (slack sys)\<lparr>sent := sent (slack sys) @
         [ParentMessage (cli_channel iv (slack sys))
            (lazyTitle (o_title iv) (get (store sys) j) (o_cwd iv)) None (cli_mention ''update'' iv),
          ThreadReply (p_channel pres) (p_ts pres) (the (updateMessage iv))
            (levelOf (o_level iv)) (cli_mention ''update'' iv)]\<rparr>\<rparr>)"
proof -
  from upsertRequested_useUpsert [OF u, where st = "store sys" and j = j and sys = sys]
  have up: "useUpsert iv (store sys) j" and c: "clearForPrompt j iv sys = sys"
    and ns: "o_hook_event iv \<noteq> Some ''Stop''" by simp_all
  note e = ensureThread_created [OF g pok, of "cli_channel iv (slack sys)" "o_title iv" "o_cwd iv"
      "cli_mention ''update'' iv" now0]
  have e': "ensureThread j (cli_channel iv (slack sys)) (o_title iv) (o_cwd iv)
             (cli_mention ''update'' iv) pres now0 (clearForPrompt j iv sys) = 
      (Inr (LazyInit (p_ts pres) (p_channel pres)
                     (lazyTitle (o_title iv) (get (store sys) j) (o_cwd iv)) True),
              \<lparr>store = (if get (store sys) j \<noteq> None
                         then updateThreadTs j (p_ts pres) (p_permalink pres) (store sys)
                         else snd (create j (p_channel pres) (p_ts pres)
                                     (lazyTitle (o_title iv) (get (store sys) j) (o_cwd iv))
                                     (p_permalink pres) now0 (store sys))),
               slack = (slack sys)\<lparr>sent := sent (slack sys) @
                 [ParentMessage (cli_channel iv (slack sys)) (lazyTitle (o_title iv) (get (store sys) j) (o_cwd iv)) None (cli_mention ''update'' iv)]\<rparr>\<rparr>)"
    unfolding c by (rule e)
  have nt': "\<not> isTerminal (if get (store sys) j \<noteq> None
                         then updateThreadTs j (p_ts pres) (p_permalink pres) (store sys)
                         else snd (create j (p_channel pres) (p_ts pres)
                                     (lazyTitle (o_title iv) (get (store sys) j) (o_cwd iv))
                                     (p_permalink pres) now0 (store sys))) j"
    using nt by (cases "get (store sys) j")
      (simp_all add: isTerminal_def get_updateThreadTs get_create fst_create)
  have np': "getProgressMessageTs (if get (store sys) j \<noteq> None
                         then updateThreadTs j (p_ts pres) (p_permalink pres) (store sys)
                         else snd (create j (p_channel pres) (p_ts pres)
                                     (lazyTitle (o_title iv) (get (store sys) j) (o_cwd iv))
                                     (p_permalink pres) now0 (store sys))) j = None"
    using np by (cases "get (store sys) j")
      (simp_all add: getProgressMessageTs_def get_updateThreadTs get_create fst_create)
  show ?thesis
    using nt' np' m ok h hn up ns
    by (simp add: cmd_update_unfold [OF e'] c Let_def del: split_paired_All)
qed


lemma get_after_update:
  "get (updateProgressMessageTs j h (snd (updateStatus j InProgress now X))) j
     = map_option (\<lambda>st. st\<lparr>status := InProgress, updatedAt := now, progressMessageTs := Some h\<rparr>)
         (get X j)"
  by (cases "get X j") (simp_all add: get_updateProgressMessageTs get_updateStatus)

lemma second_update:
  assumes g: "get (store s1) j = Some st1" and t: "threadTs st1 \<noteq> []"
    and st: "status st1 = InProgress" and p: "progressMessageTs st1 = Some h1"
    and u2: "upsertRequested iv2" and m2: "truthy (updateMessage iv2)"
    and r2: "r_ok rres2" "r_ts rres2 = Some h2" "h2 \<noteq> []"
  shows "newCalls s1 (snd (cmd_update j iv2 pres2 rres2 t2 t3 s1))
           = [EditReply (channel st1) (threadTs st1) (the (updateMessage iv2))
                (levelOf (o_level iv2)) (cli_mention ''update'' iv2) h1]
       \<and> getProgressMessageTs (store (snd (cmd_update j iv2 pres2 rres2 t2 t3 s1))) j = Some h2"
proof -
  have nt: "\<not> isTerminal (store s1) j" by (simp add: isTerminal_def g st)
  show ?thesis
    by (simp add: cmd_update_existing [OF g t nt u2 m2 r2] p getProgressMessageTs_def
        get_after_update g)
qed

lemma first_update:
  assumes nt: "\<not> isTerminal (store sys) j"
    and np: "getProgressMessageTs (store sys) j = None"
    and th: "truthy (map_option threadTs (get (store sys) j)) \<or> (p_ok pres1 \<and> p_ts pres1 \<noteq> [])"
    and u1: "upsertRequested iv1" and m1: "truthy (updateMessage iv1)"
    and r1: "r_ok rres1" "r_ts rres1 = Some h1" "h1 \<noteq> []"
    and s1: "s1 = snd (cmd_update j iv1 pres1 rres1 t0 t1 sys)"
  shows "\<exists>st1. get (store s1) j = Some st1 \<and> threadTs st1 \<noteq> [] \<and> status st1 = InProgress
           \<and> progressMessageTs st1 = Some h1
           \<and> filter (\<lambda>c. \<not> is_parent c) (newCalls sys s1)
               = [ThreadReply (if truthy (map_option threadTs (get (store sys) j))
                               then channel (the (get (store sys) j)) else p_channel pres1)
                    (threadTs st1) (the (updateMessage iv1))
                    (levelOf (o_level iv1)) (cli_mention ''update'' iv1)]"
proof (cases "truthy (map_option threadTs (get (store sys) j))")
  case True
  then obtain st where g: "get (store sys) j = Some st" and t: "threadTs st \<noteq> []"
    by (cases "get (store sys) j") auto
  from np g have p: "progressMessageTs st = None" by (simp add: getProgressMessageTs_def)
  note first = cmd_update_existing [OF g t nt u1 m1 r1, of pres1 t0 t1]
  let ?st1 = "st\<lparr>status := InProgress, updatedAt := t1, progressMessageTs := Some h1\<rparr>"
  have g1: "get (store s1) j = Some ?st1"
    by (simp add: s1 first get_after_update g)
  have c1: "newCalls sys s1 = [ThreadReply (channel st) (threadTs st) (the (updateMessage iv1))
                (levelOf (o_level iv1)) (cli_mention ''update'' iv1)]"
    by (simp add: s1 first p)
  from c1 g1 g t True show ?thesis by simp
next
  case False
  with th have pok: "p_ok pres1" and pts: "p_ts pres1 \<noteq> []" by simp_all
  note first = cmd_update_lazy [OF False nt np u1 m1 pok r1, of t0 t1]
  let ?X = "if get (store sys) j \<noteq> None
            then updateThreadTs j (p_ts pres1) (p_permalink pres1) (store sys)
            else snd (create j (p_channel pres1) (p_ts pres1)
                        (lazyTitle (o_title iv1) (get (store sys) j) (o_cwd iv1))
                        (p_permalink pres1) t0 (store sys))"
  obtain x where gx: "get ?X j = Some x" and tx: "threadTs x = p_ts pres1"
    by (cases "get (store sys) j") (simp_all add: get_updateThreadTs get_create fst_create)
  let ?st1 = "x\<lparr>status := InProgress, updatedAt := t1, progressMessageTs := Some h1\<rparr>"
  have g1: "get (store s1) j = Some ?st1"
    using gx by (simp add: s1 first get_after_update)
  have c1: "filter (\<lambda>c. \<not> is_parent c) (newCalls sys s1)
      = [ThreadReply (p_channel pres1) (p_ts pres1) (the (updateMessage iv1))
                (levelOf (o_level iv1)) (cli_mention ''update'' iv1)]"
    by (simp add: s1 first)
  from c1 g1 tx pts False show ?thesis by simp
qed


section \<open>Thread resolution\<close>

lemma titleFromCwd_segment:
  "titleFromCwd c = (case lastPathSegment c of Some segment \<Rightarrow> segment | None \<Rightarrow> fallbackTitle)"
  by (simp add: titleFromCwd_def lastPathSegment_def Let_def split: list.split)

lemma titleFromCwd_nonempty: "titleFromCwd c \<noteq> []"
proof (cases "filter (\<lambda>p. p \<noteq> []) (splitOn CHR ''/'' c) = []")
  case True
  then show ?thesis by (simp add: titleFromCwd_def fallbackTitle_def)
next
  case False
  then have "last (filter (\<lambda>p. p \<noteq> []) (splitOn CHR ''/'' c))
               \<in> set (filter (\<lambda>p. p \<noteq> []) (splitOn CHR ''/'' c))"
    by (rule last_in_set)
  with False show ?thesis by (simp add: titleFromCwd_def)
qed

lemma lazyTitle_chooseTitle:
  "lazyTitle titleOverride state cwdHint = chooseTitle titleOverride (map_option title state) cwdHint"
proof -
  have "chooseTitle titleOverride (map_option title state) cwdHint =
     (if truthy titleOverride then the titleOverride
      else if truthy (map_option title state) then the (map_option title state)
      else if truthy cwdHint then titleFromCwd (the cwdHint) else fallbackTitle)"
    by (simp add: chooseTitle_def titleFromCwd_segment)
  then show ?thesis
    by (simp add: lazyTitle_def js_or_def Let_def titleFromCwd_nonempty)
qed

lemma ensureThread_cases [case_names existing failed created]:
  obtains st where "get (store sys) j = Some st" and "threadTs st \<noteq> []"
      and "ensureThread j chan titleOverride cwdHint m pres now sys
             = (Inr (LazyInit (threadTs st) (channel st) (title st) False), sys)"
  | "\<not> truthy (map_option threadTs (get (store sys) j))" and "\<not> p_ok pres"
      and "ensureThread j chan titleOverride cwdHint m pres now sys
             = (Inl CreateThreadFailed,
                sys\<lparr>slack := (slack sys)\<lparr>sent := sent (slack sys) @
                   [ParentMessage chan (lazyTitle titleOverride (get (store sys) j) cwdHint) None m]\<rparr>\<rparr>)"
  | "\<not> truthy (map_option threadTs (get (store sys) j))" and "p_ok pres"
      and "ensureThread j chan titleOverride cwdHint m pres now sys
           = (Inr (LazyInit (p_ts pres) (p_channel pres)
                     (lazyTitle titleOverride (get (store sys) j) cwdHint) True),
              \<lparr>store = (if get (store sys) j \<noteq> None
                         then updateThreadTs j (p_ts pres) (p_permalink pres) (store sys)
                         else snd (create j (p_channel pres) (p_ts pres)
                                     (lazyTitle titleOverride (get (store sys) j) cwdHint)
                                     (p_permalink pres) now (store sys))),
               slack = (slack sys)\<lparr>sent := sent (slack sys) @
                 [ParentMessage chan (lazyTitle titleOverride (get (store sys) j) cwdHint) None m]\<rparr>\<rparr>)"
proof (cases "truthy (map_option threadTs (get (store sys) j))")
  case True
  then obtain st where "get (store sys) j = Some st" and "threadTs st \<noteq> []"
    by (cases "get (store sys) j") auto
  with that(1) ensureThread_existing show ?thesis by blast
next
  case False
  show ?thesis
  proof (cases "p_ok pres")
    case True
    with False that(3) ensureThread_created show ?thesis by blast
  next
    case f: False
    with False that(2) ensureThread_failed show ?thesis by blast
  qed
qed

lemma cmd_waiting_calls:
  "\<exists>rest. newCalls sys (snd (cmd_waiting j iv pres rres now0 sys)) = anchorPart ''waiting'' j iv sys @ rest
     \<and> list_all (\<lambda>c. thread_of c = Some (resolvedTs j pres sys)) rest"
proof (cases rule: ensureThread_cases [of sys j "cli_channel iv (slack sys)" "o_title iv" "o_cwd iv"
      "cli_mention ''waiting'' iv" pres now0])
  case (existing st)
  then show ?thesis
    by (simp add: cmd_waiting_unfold [OF existing(3)] anchorPart_def resolvedTs_def newCalls_def
        split: option.split)
next
  case failed
  then show ?thesis
    by (simp add: cmd_waiting_unfold [OF failed(3)] anchorPart_def resolvedTs_def newCalls_def)
next
  case created
  then show ?thesis
    by (simp add: cmd_waiting_unfold [OF created(3)] anchorPart_def resolvedTs_def newCalls_def
        split: option.split)
qed

lemma cmd_complete_calls:
  "\<exists>rest. newCalls sys (snd (cmd_complete j iv pres rres now0 now sys)) = anchorPart ''complete'' j iv sys @ rest
     \<and> list_all (\<lambda>c. thread_of c = Some (resolvedTs j pres sys)) rest"
proof (cases rule: ensureThread_cases [of sys j "cli_channel iv (slack sys)" "o_title iv" "o_cwd iv"
      "cli_mention ''complete'' iv" pres now0])
  case (existing st)
  then show ?thesis
    by (simp add: cmd_complete_unfold [OF existing(3)] anchorPart_def resolvedTs_def newCalls_def)
next
  case failed
  then show ?thesis
    by (simp add: cmd_complete_unfold [OF failed(3)] anchorPart_def resolvedTs_def newCalls_def)
next
  case created
  then show ?thesis
    by (simp add: cmd_complete_unfold [OF created(3)] anchorPart_def resolvedTs_def newCalls_def)
qed

lemma cmd_fail_calls:
  assumes "truthy (o_error iv)"
  shows "\<exists>rest. newCalls sys (snd (cmd_fail j iv pres rres now0 now sys)) = anchorPart ''fail'' j iv sys @ rest
     \<and> list_all (\<lambda>c. thread_of c = Some (resolvedTs j pres sys)) rest"
proof (cases rule: ensureThread_cases [of sys j "cli_channel iv (slack sys)" "o_title iv" "o_cwd iv"
      "cli_mention ''fail'' iv" pres now0])
  case (existing st)
  then show ?thesis using assms
    by (simp add: cmd_fail_unfold [OF existing(3)] anchorPart_def resolvedTs_def newCalls_def)
next
  case failed
  then show ?thesis using assms
    by (simp add: cmd_fail_unfold [OF failed(3)] anchorPart_def resolvedTs_def newCalls_def)
next
  case created
  then show ?thesis using assms
    by (simp add: cmd_fail_unfold [OF created(3)] anchorPart_def resolvedTs_def newCalls_def)
qed

lemma get_clearForPrompt_fields [simp]:
  "map_option title (get (store (clearForPrompt j iv sys)) k) = map_option title (get (store sys) k)"
  by (cases "get (store sys) j") (auto simp add: clearForPrompt_def get_clearProgressMessageTs)

lemma cmd_update_calls:
  assumes "truthy (updateMessage iv)"
  shows "\<exists>rest. newCalls sys (snd (cmd_update j iv pres rres now0 now sys)) = anchorPart ''update'' j iv sys @ rest
     \<and> list_all (\<lambda>c. thread_of c = Some (resolvedTs j pres sys)) rest"
proof -
  let ?sys = "clearForPrompt j iv sys"
  have g: "map_option threadTs (get (store ?sys) j) = map_option threadTs (get (store sys) j)"
    by simp
  have tt: "get (store ?sys) j = Some st \<Longrightarrow> threadTs st \<noteq> [] \<Longrightarrow>
      threadTs (the (get (store sys) j)) = threadTs st \<and> truthy (map_option threadTs (get (store sys) j))" for st
    using g by (cases "get (store sys) j") auto
  have lt: "lazyTitle (o_title iv) (get (store ?sys) j) (o_cwd iv)
              = lazyTitle (o_title iv) (get (store sys) j) (o_cwd iv)"
    by (simp add: lazyTitle_chooseTitle)
  show ?thesis
  proof (cases rule: ensureThread_cases [of ?sys j "cli_channel iv (slack sys)" "o_title iv" "o_cwd iv"
      "cli_mention ''update'' iv" pres now0])
    case (existing st)
    with tt [OF existing(1,2)] assms show ?thesis
      by (simp add: cmd_update_unfold [OF existing(3)] anchorPart_def resolvedTs_def newCalls_def
          Let_def split: option.split)
  next
    case failed
    with assms g lt show ?thesis
      by (simp add: cmd_update_unfold [OF failed(3)] anchorPart_def resolvedTs_def newCalls_def)
  next
    case created
    with assms g lt show ?thesis
      by (simp add: cmd_update_unfold [OF created(3)] anchorPart_def resolvedTs_def newCalls_def
          Let_def split: option.split)
  qed
qed

lemma tool_not_found:
  assumes "\<not> truthy (targetThreadTs tts (get (store sys) j))"
  shows "slack_thread_update j msg tts lvl mention en tmo rres now sys = (Inl ThreadNotFound, sys)"
    and "slack_thread_waiting j tts reason mention rres sys = (Inl ThreadNotFound, sys)"
    and "slack_thread_complete j tts summary sugg mention rres now sys = (Inl ThreadNotFound, sys)"
    and "slack_thread_fail j tts err logs mention rres now sys = (Inl ThreadNotFound, sys)"
  using assms
  by (simp_all add: slack_thread_update_def slack_thread_waiting_def slack_thread_complete_def
      slack_thread_fail_def Let_def)

lemma tool_threads:
  assumes "truthy (targetThreadTs tts (get (store sys) j))"
  shows "fst (slack_thread_update j msg tts lvl mention en tmo rres now sys) \<noteq> Inl ThreadNotFound
       \<and> list_all (\<lambda>c. thread_of c = targetThreadTs tts (get (store sys) j))
           (newCalls sys (snd (slack_thread_update j msg tts lvl mention en tmo rres now sys)))"
    and "fst (slack_thread_waiting j tts reason mention rres sys) \<noteq> Inl ThreadNotFound
       \<and> list_all (\<lambda>c. thread_of c = targetThreadTs tts (get (store sys) j))
           (newCalls sys (snd (slack_thread_waiting j tts reason mention rres sys)))"
    and "fst (slack_thread_complete j tts summary sugg mention rres now sys) \<noteq> Inl ThreadNotFound
       \<and> list_all (\<lambda>c. thread_of c = targetThreadTs tts (get (store sys) j))
           (newCalls sys (snd (slack_thread_complete j tts summary sugg mention rres now sys)))"
    and "fst (slack_thread_fail j tts err logs mention rres now sys) \<noteq> Inl ThreadNotFound
       \<and> list_all (\<lambda>c. thread_of c = targetThreadTs tts (get (store sys) j))
           (newCalls sys (snd (slack_thread_fail j tts err logs mention rres now sys)))"
proof -
  from assms obtain t where t: "targetThreadTs tts (get (store sys) j) = Some t"
    by (cases "targetThreadTs tts (get (store sys) j)") auto
  show "fst (slack_thread_update j msg tts lvl mention en tmo rres now sys) \<noteq> Inl ThreadNotFound
       \<and> list_all (\<lambda>c. thread_of c = targetThreadTs tts (get (store sys) j))
           (newCalls sys (snd (slack_thread_update j msg tts lvl mention en tmo rres now sys)))"
    using assms t
    by (simp add: slack_thread_update_def postThreadReply_def newCalls_def Let_def)
  show "fst (slack_thread_waiting j tts reason mention rres sys) \<noteq> Inl ThreadNotFound
       \<and> list_all (\<lambda>c. thread_of c = targetThreadTs tts (get (store sys) j))
           (newCalls sys (snd (slack_thread_waiting j tts reason mention rres sys)))"
    using assms t
    by (simp add: slack_thread_waiting_def postWaiting_def newCalls_def Let_def)
  show "fst (slack_thread_complete j tts summary sugg mention rres now sys) \<noteq> Inl ThreadNotFound
       \<and> list_all (\<lambda>c. thread_of c = targetThreadTs tts (get (store sys) j))
           (newCalls sys (snd (slack_thread_complete j tts summary sugg mention rres now sys)))"
    using assms t
    by (simp add: slack_thread_complete_def postComplete_def newCalls_def Let_def)
  show "fst (slack_thread_fail j tts err logs mention rres now sys) \<noteq> Inl ThreadNotFound
       \<and> list_all (\<lambda>c. thread_of c = targetThreadTs tts (get (store sys) j))
           (newCalls sys (snd (slack_thread_fail j tts err logs mention rres now sys)))"
    using assms t
    by (simp add: slack_thread_fail_def postFail_def newCalls_def Let_def)
qed


lemma cmd_update_no_message:
  "\<not> truthy (updateMessage iv) \<Longrightarrow> newCalls sys (snd (cmd_update j iv pres rres now0 now sys)) = []"
  by (simp add: cmd_update_def Let_def newCalls_def)

lemma cmd_fail_no_error:
  "\<not> truthy (o_error iv) \<Longrightarrow> newCalls sys (snd (cmd_fail j iv pres rres now0 now sys)) = []"
  by (simp add: cmd_fail_def Let_def)

lemma resolve_tool:
  "resolveThread tts (map_option threadTs state) False a b c =
     (if truthy (targetThreadTs tts state) then UseThread (the (targetThreadTs tts state))
      else NotFound)"
  by (simp add: resolveThread_def targetThreadTs_def js_or_def)

lemma resolve_cli_use:
  assumes "resolveThread None (map_option threadTs (get (store sys) j)) True a b c = UseThread t"
  shows "anchorPart command j iv sys = []" and "resolvedTs j pres sys = t"
  using assms
  by (cases "get (store sys) j"; simp add: resolveThread_def anchorPart_def resolvedTs_def
        split: if_splits)+

lemma resolve_cli_create:
  assumes "resolveThread None (map_option threadTs (get (store sys) j)) True (o_title iv)
             (map_option title (get (store sys) j)) (o_cwd iv) = CreateThread ttl"
  shows "anchorPart command j iv sys
           = [ParentMessage (cli_channel iv (slack sys)) ttl None (cli_mention command iv)]"
    and "resolvedTs j pres sys = p_ts pres"
  using assms
  by (simp_all add: resolveThread_def anchorPart_def resolvedTs_def lazyTitle_chooseTitle
        split: if_splits)

text \<open>
  What both transports do with the handles they consult, against the spec's order
  \<open>resolveThread\<close>. The tools of the server take the explicit handle, then the stored
  one; without either they fail with "thread not found" and change nothing; with a handle
  every request they send goes into that thread. The commands of the command line, given
  no explicit handle: with a stored handle every request goes into that thread; without
  one the first request is the anchor message, posted to the configured channel with the
  title chosen in the spec's order (caller's title, stored title, last path segment of
  the working-directory hint, fallback label), and every later request goes into the
  thread the platform returned.
\<close>

lemma thread_resolution_order:
  "(resolveThread tts (map_option threadTs (get (store sys) j)) False None None None = NotFound \<longrightarrow>
       slack_thread_update j msg tts lvl mention en tmo rres now sys = (Inl ThreadNotFound, sys)
     \<and> slack_thread_waiting j tts reason mention rres sys = (Inl ThreadNotFound, sys)
     \<and> slack_thread_complete j tts summary sugg mention rres now sys = (Inl ThreadNotFound, sys)
     \<and> slack_thread_fail j tts err logs mention rres now sys = (Inl ThreadNotFound, sys))
   \<and> (resolveThread tts (map_option threadTs (get (store sys) j)) False None None None = UseThread t \<longrightarrow>
       fst (slack_thread_update j msg tts lvl mention en tmo rres now sys) \<noteq> Inl ThreadNotFound
     \<and> list_all (\<lambda>c. thread_of c = Some t)
         (newCalls sys (snd (slack_thread_update j msg tts lvl mention en tmo rres now sys)))
     \<and> fst (slack_thread_waiting j tts reason mention rres sys) \<noteq> Inl ThreadNotFound
     \<and> list_all (\<lambda>c. thread_of c = Some t)
         (newCalls sys (snd (slack_thread_waiting j tts reason mention rres sys)))
     \<and> fst (slack_thread_complete j tts summary sugg mention rres now sys) \<noteq> Inl ThreadNotFound
     \<and> list_all (\<lambda>c. thread_of c = Some t)
         (newCalls sys (snd (slack_thread_complete j tts summary sugg mention rres now sys)))
     \<and> fst (slack_thread_fail j tts err logs mention rres now sys) \<noteq> Inl ThreadNotFound
     \<and> list_all (\<lambda>c. thread_of c = Some t)
         (newCalls sys (snd (slack_thread_fail j tts err logs mention rres now sys))))
   \<and> (resolveThread None (map_option threadTs (get (store sys) j)) True (o_title iv)
         (map_option title (get (store sys) j)) (o_cwd iv) = UseThread t \<longrightarrow>
       list_all (\<lambda>c. thread_of c = Some t)
         (newCalls sys (snd (cmd_update j iv pres rres now0 now sys)))
     \<and> list_all (\<lambda>c. thread_of c = Some t)
         (newCalls sys (snd (cmd_waiting j iv pres rres now0 sys)))
     \<and> list_all (\<lambda>c. thread_of c = Some t)
         (newCalls sys (snd (cmd_complete j iv pres rres now0 now sys)))
     \<and> list_all (\<lambda>c. thread_of c = Some t)
         (newCalls sys (snd (cmd_fail j iv pres rres now0 now sys))))
   \<and> (resolveThread None (map_option threadTs (get (store sys) j)) True (o_title iv)
         (map_option title (get (store sys) j)) (o_cwd iv) = CreateThread ttl \<longrightarrow>
       (truthy (updateMessage iv) \<longrightarrow>
          (\<exists>rest. newCalls sys (snd (cmd_update j iv pres rres now0 now sys))
                    = ParentMessage (cli_channel iv (slack sys)) ttl None (cli_mention ''update'' iv) # rest
                 \<and> list_all (\<lambda>c. thread_of c = Some (p_ts pres)) rest))
     \<and> (\<exists>rest. newCalls sys (snd (cmd_waiting j iv pres rres now0 sys))
                    = ParentMessage (cli_channel iv (slack sys)) ttl None (cli_mention ''waiting'' iv) # rest
                 \<and> list_all (\<lambda>c. thread_of c = Some (p_ts pres)) rest)
     \<and> (\<exists>rest. newCalls sys (snd (cmd_complete j iv pres rres now0 now sys))
                    = ParentMessage (cli_channel iv (slack sys)) ttl None (cli_mention ''complete'' iv) # rest
                 \<and> list_all (\<lambda>c. thread_of c = Some (p_ts pres)) rest)
     \<and> (truthy (o_error iv) \<longrightarrow>
          (\<exists>rest. newCalls sys (snd (cmd_fail j iv pres rres now0 now sys))
                    = ParentMessage (cli_channel iv (slack sys)) ttl None (cli_mention ''fail'' iv) # rest
                 \<and> list_all (\<lambda>c. thread_of c = Some (p_ts pres)) rest)))
   \<and> (\<forall>explicit stored a b c. resolveThread explicit stored True a b c \<noteq> NotFound)"
proof (intro conjI impI allI)
  assume "resolveThread tts (map_option threadTs (get (store sys) j)) False None None None = NotFound"
  then have n: "\<not> truthy (targetThreadTs tts (get (store sys) j))"
    by (simp add: resolve_tool split: if_splits)
  show "slack_thread_update j msg tts lvl mention en tmo rres now sys = (Inl ThreadNotFound, sys)"
    "slack_thread_waiting j tts reason mention rres sys = (Inl ThreadNotFound, sys)"
    "slack_thread_complete j tts summary sugg mention rres now sys = (Inl ThreadNotFound, sys)"
    "slack_thread_fail j tts err logs mention rres now sys = (Inl ThreadNotFound, sys)"
    by (rule tool_not_found [OF n])+
next
  assume "resolveThread tts (map_option threadTs (get (store sys) j)) False None None None = UseThread t"
  then have y: "truthy (targetThreadTs tts (get (store sys) j))"
    and t: "targetThreadTs tts (get (store sys) j) = Some t"
    by (cases "targetThreadTs tts (get (store sys) j)"; simp add: resolve_tool split: if_splits)+
  note T = tool_threads [OF y, unfolded t]
  show "fst (slack_thread_update j msg tts lvl mention en tmo rres now sys) \<noteq> Inl ThreadNotFound"
    "list_all (\<lambda>c. thread_of c = Some t)
         (newCalls sys (snd (slack_thread_update j msg tts lvl mention en tmo rres now sys)))"
    "fst (slack_thread_waiting j tts reason mention rres sys) \<noteq> Inl ThreadNotFound"
    "list_all (\<lambda>c. thread_of c = Some t)
         (newCalls sys (snd (slack_thread_waiting j tts reason mention rres sys)))"
    "fst (slack_thread_complete j tts summary sugg mention rres now sys) \<noteq> Inl ThreadNotFound"
    "list_all (\<lambda>c. thread_of c = Some t)
         (newCalls sys (snd (slack_thread_complete j tts summary sugg mention rres now sys)))"
    "fst (slack_thread_fail j tts err logs mention rres now sys) \<noteq> Inl ThreadNotFound"
    "list_all (\<lambda>c. thread_of c = Some t)
         (newCalls sys (snd (slack_thread_fail j tts err logs mention rres now sys)))"
    using T by simp_all
next
  assume u: "resolveThread None (map_option threadTs (get (store sys) j)) True (o_title iv)
         (map_option title (get (store sys) j)) (o_cwd iv) = UseThread t"
  note R = resolve_cli_use [OF u]
  show "list_all (\<lambda>c. thread_of c = Some t) (newCalls sys (snd (cmd_update j iv pres rres now0 now sys)))"
  proof (cases "truthy (updateMessage iv)")
    case True
    from cmd_update_calls [OF True, of sys j pres rres now0 now] R show ?thesis by auto
  next
    case False
    then show ?thesis by (simp add: cmd_update_no_message)
  qed
  show "list_all (\<lambda>c. thread_of c = Some t) (newCalls sys (snd (cmd_waiting j iv pres rres now0 sys)))"
    using cmd_waiting_calls [of sys j iv pres rres now0] R by auto
  show "list_all (\<lambda>c. thread_of c = Some t) (newCalls sys (snd (cmd_complete j iv pres rres now0 now sys)))"
    using cmd_complete_calls [of sys j iv pres rres now0 now] R by auto
  show "list_all (\<lambda>c. thread_of c = Some t) (newCalls sys (snd (cmd_fail j iv pres rres now0 now sys)))"
  proof (cases "truthy (o_error iv)")
    case True
    from cmd_fail_calls [OF True, of sys j pres rres now0 now] R show ?thesis by auto
  next
    case False
    then show ?thesis by (simp add: cmd_fail_no_error)
  qed
next
  assume c: "resolveThread None (map_option threadTs (get (store sys) j)) True (o_title iv)
         (map_option title (get (store sys) j)) (o_cwd iv) = CreateThread ttl"
  note R = resolve_cli_create [OF c]
  { assume m: "truthy (updateMessage iv)"
    from cmd_update_calls [OF m, of sys j pres rres now0 now] R
    show "\<exists>rest. newCalls sys (snd (cmd_update j iv pres rres now0 now sys))
                    = ParentMessage (cli_channel iv (slack sys)) ttl None (cli_mention ''update'' iv) # rest
                 \<and> list_all (\<lambda>c. thread_of c = Some (p_ts pres)) rest"
      by auto }
  from cmd_waiting_calls [of sys j iv pres rres now0] R
  show "\<exists>rest. newCalls sys (snd (cmd_waiting j iv pres rres now0 sys))
                    = ParentMessage (cli_channel iv (slack sys)) ttl None (cli_mention ''waiting'' iv) # rest
                 \<and> list_all (\<lambda>c. thread_of c = Some (p_ts pres)) rest"
    by auto
  from cmd_complete_calls [of sys j iv pres rres now0 now] R
  show "\<exists>rest. newCalls sys (snd (cmd_complete j iv pres rres now0 now sys))
                    = ParentMessage (cli_channel iv (slack sys)) ttl None (cli_mention ''complete'' iv) # rest
                 \<and> list_all (\<lambda>c. thread_of c = Some (p_ts pres)) rest"
    by auto
  { assume e: "truthy (o_error iv)"
    from cmd_fail_calls [OF e, of sys j pres rres now0 now] R
    show "\<exists>rest. newCalls sys (snd (cmd_fail j iv pres rres now0 now sys))
                    = ParentMessage (cli_channel iv (slack sys)) ttl None (cli_mention ''fail'' iv) # rest
                 \<and> list_all (\<lambda>c. thread_of c = Some (p_ts pres)) rest"
      by auto }
next
  fix explicit stored a b c
  show "resolveThread explicit stored True a b c \<noteq> NotFound"
    by (simp add: resolveThread_def)
qed


lemma thread_resolution_order_example:
  "resolveThread None (map_option threadTs (get (store exampleSystem) ''j9'')) False None None None
     = NotFound
   \<and> slack_thread_update ''j9'' ''building'' None None None None None (okReply ''100.2'') ''t1''
        exampleSystem = (Inl ThreadNotFound, exampleSystem)
   \<and> resolveThread (Some ''999.9'') (map_option threadTs (get (store startedSystem) ''j1'')) False
        None None None = UseThread ''999.9''
   \<and> list_all (\<lambda>c. thread_of c = Some ''999.9'')
        (newCalls startedSystem
           (snd (slack_thread_complete ''j1'' (Some ''999.9'') None None None (okReply ''100.2'') ''t1''
                   startedSystem)))
   \<and> newCalls startedSystem
        (snd (slack_thread_complete ''j1'' (Some ''999.9'') None None None (okReply ''100.2'') ''t1''
                startedSystem))
       = [CompleteMessage ''C0'' ''999.9'' ''Deploy'' None None True]
   \<and> resolveThread None (map_option threadTs (get (store exampleSystem) ''j9'')) True
        (o_title cwdOptions) (map_option title (get (store exampleSystem) ''j9'')) (o_cwd cwdOptions)
       = CreateThread ''proj''
   \<and> (\<exists>rest. newCalls exampleSystem
                 (snd (cmd_waiting ''j9'' cwdOptions (okPost ''C0'' ''200.1'') (okReply ''200.2'') ''t1''
                         exampleSystem))
               = ParentMessage ''C0'' ''proj'' None False # rest
             \<and> list_all (\<lambda>c. thread_of c = Some ''200.1'') rest)"
proof -
  have g9: "get (store exampleSystem) ''j9'' = None"
    by (simp add: example_defs get_def)
  have g1: "map_option threadTs (get (store startedSystem) ''j1'') = Some ''100.1''"
    by (simp add: startedSystem_eval get_def)
  have a: "resolveThread None (map_option threadTs (get (store exampleSystem) ''j9'')) False None None None
     = NotFound"
    by (simp add: g9 resolveThread_def)
  have b: "resolveThread (Some ''999.9'') (map_option threadTs (get (store startedSystem) ''j1'')) False
        None None None = UseThread ''999.9''"
    by (simp add: resolveThread_def)
  have c: "resolveThread None (map_option threadTs (get (store exampleSystem) ''j9'')) True
        (o_title cwdOptions) (map_option title (get (store exampleSystem) ''j9'')) (o_cwd cwdOptions)
       = CreateThread ''proj''"
    by (simp add: g9 resolveThread_def chooseTitle_def lastPathSegment_def cwdOptions_def
        noOptions_def)
  have e: "newCalls startedSystem
        (snd (slack_thread_complete ''j1'' (Some ''999.9'') None None None (okReply ''100.2'') ''t1''
                startedSystem))
       = [CompleteMessage ''C0'' ''999.9'' ''Deploy'' None None True]"
    by (simp add: startedSystem_eval okReply_def store_defs client_defs tool_defs newCalls_def Let_def)
  have m: "cli_channel cwdOptions (slack exampleSystem) = ''C0''"
    "cli_mention ''waiting'' cwdOptions = False" "p_ts (okPost ''C0'' ''200.1'') = ''200.1''"
    by (simp_all add: cwdOptions_def noOptions_def example_defs cli_defs)
  note A = thread_resolution_order [where sys = exampleSystem and j = "''j9''" and tts = None
      and iv = cwdOptions and ttl = "''proj''" and pres = "okPost ''C0'' ''200.1''"
      and rres = "okReply ''200.2''" and ?now0.0 = "''t1''"]
  note A' = thread_resolution_order [where sys = exampleSystem and j = "''j9''" and tts = None
      and msg = "''building''" and lvl = None and mention = None and en = None and tmo = None
      and rres = "okReply ''100.2''" and now = "''t1''"]
  note B = thread_resolution_order [where sys = startedSystem and j = "''j1''"
      and tts = "Some ''999.9''" and t = "''999.9''" and summary = None and sugg = None
      and mention = None and rres = "okReply ''100.2''" and now = "''t1''"]
  have r1: "slack_thread_update ''j9'' ''building'' None None None None None (okReply ''100.2'') ''t1''
        exampleSystem = (Inl ThreadNotFound, exampleSystem)"
    using A' a by blast
  have r2: "list_all (\<lambda>c. thread_of c = Some ''999.9'')
        (newCalls startedSystem
           (snd (slack_thread_complete ''j1'' (Some ''999.9'') None None None (okReply ''100.2'') ''t1''
                   startedSystem)))"
    using B b by blast
  have r3: "\<exists>rest. newCalls exampleSystem
                 (snd (cmd_waiting ''j9'' cwdOptions (okPost ''C0'' ''200.1'') (okReply ''200.2'') ''t1''
                         exampleSystem))
               = ParentMessage ''C0'' ''proj'' None False # rest
             \<and> list_all (\<lambda>c. thread_of c = Some ''200.1'') rest"
    using A c unfolding m by blast
  from a b c e r1 r2 r3 show ?thesis by blast
qed

text \<open>
  Claim C5 (thread resolution order) does not hold on the command line. An \<open>update\<close>
  that names the thread \<open>100.1\<close> with \<open>--thread-ts\<close>, for a job the ledger does not hold,
  must by the order of the claim post into that thread, as the same request to the
  \<open>update\<close> tool of the server does. The command line stores the option and never reads
  it: it posts a new anchor message and replies in the thread of that message.
\<close>

theorem cli_ignores_explicit_thread:
  "get (store exampleSystem) ''j9'' = None
   \<and> o_thread_ts explicitOptions = Some ''100.1''
   \<and> resolveThread (o_thread_ts explicitOptions)
        (map_option threadTs (get (store exampleSystem) ''j9'')) True (o_title explicitOptions)
        (map_option title (get (store exampleSystem) ''j9'')) (o_cwd explicitOptions)
     = UseThread ''100.1''
   \<and> newCalls exampleSystem
        (snd (slack_thread_update ''j9'' ''building'' (Some ''100.1'') None None None None
                (okReply ''200.2'') ''t1'' exampleSystem))
     = [ThreadReply ''C0'' ''100.1'' ''building'' Info False]
   \<and> newCalls exampleSystem
        (snd (cmd_update ''j9'' explicitOptions (okPost ''C0'' ''200.1'') (okReply ''200.2'')
                ''t0'' ''t1'' exampleSystem))
     = [ParentMessage ''C0'' ''Claude Code Task'' None True,
        ThreadReply ''C0'' ''200.1'' ''building'' Info True]"
  by (simp add: resolveThread_def explicitOptions_def example_defs store_defs client_defs cli_defs
      tool_defs newCalls_def Let_def fallbackTitle_def)


section \<open>The state file between processes\<close>

text \<open>
  A store that has been constructed from a configured path, or has written its file,
  agrees with the file; every command of the command line keeps it so; and the process
  started next finds the ledger the last one left.
\<close>

lemma list_all_update:
  "list_all P al \<Longrightarrow> P (k, v) \<Longrightarrow> list_all P (AList.update k v al)"
  by (induction al) auto

lemma keyed_update: "keyed al \<Longrightarrow> jobId st = k \<Longrightarrow> keyed (AList.update k st al)"
  unfolding keyed_def by (simp add: distinct_update list_all_update)

lemma keyed_fold: "keyed al \<Longrightarrow> keyed (fold (\<lambda>st m. AList.update (jobId st) st m) xs al)"
  by (induction xs arbitrary: al) (simp_all add: keyed_update)

lemma keyed_new: "keyed (threads (ThreadStore_new path fsys))"
proof -
  have e: "keyed []" by (simp add: keyed_def)
  show ?thesis
    by (simp add: ThreadStore_new_def loadFromDisk_def keyed_fold [OF e] e Let_def
        split: option.split disk_file.split)
qed

lemma persistPath_new [simp]: "persistPath (ThreadStore_new path fsys) = path"
  by (simp add: ThreadStore_new_def loadFromDisk_def Let_def split: option.split disk_file.split)

lemma fs_new [simp]: "fs (ThreadStore_new path fsys) = fsys"
  by (simp add: ThreadStore_new_def loadFromDisk_def Let_def split: option.split disk_file.split)

lemma synced_new: "truthy path \<Longrightarrow> synced (ThreadStore_new path fsys)"
  by (simp add: synced_def)

lemma synced_keyed: "synced s \<Longrightarrow> keyed (threads s)"
  using keyed_new [of "persistPath s" "fs s"] by (simp add: synced_def)

lemma keyed_get: "keyed (threads s) \<Longrightarrow> get s j = Some st \<Longrightarrow> jobId st = j"
  unfolding keyed_def get_def by (induction "threads s" arbitrary: s) (auto dest!: map_of_SomeD simp add: list_all_iff)

lemma synced_saved:
  assumes p: "truthy (persistPath s)" and k: "keyed (threads s)"
  shows "synced (saveToDisk s)"
proof -
  from p obtain q where q: "persistPath s = Some q" "q \<noteq> []"
    by (cases "persistPath s") auto
  have "threads (ThreadStore_new (persistPath s) (fs (saveToDisk s))) = threads s"
    by (rule restart_threads [OF k q])
  then have "ThreadStore_new (persistPath (saveToDisk s)) (fs (saveToDisk s)) = saveToDisk s"
    by (intro ThreadStore.equality) simp_all
  with p show ?thesis by (simp add: synced_def)
qed

lemma synced_put:
  assumes "synced s" and "jobId st = j"
  shows "synced (saveToDisk (s\<lparr>threads := AList.update j st (threads s)\<rparr>))"
  using assms by (intro synced_saved) (simp_all add: synced_def keyed_update synced_keyed)

lemma synced_create: "synced s \<Longrightarrow> synced (snd (create j ch ts ttl pl now s))"
  by (simp add: create_def Let_def synced_put)

lemma synced_updateStatus: "synced s \<Longrightarrow> synced (snd (updateStatus j stat now s))"
  by (cases "get s j") (simp_all add: updateStatus_def synced_put keyed_get [OF synced_keyed])

lemma synced_updateThreadTs: "synced s \<Longrightarrow> synced (updateThreadTs j ts pl s)"
  by (cases "get s j") (simp_all add: updateThreadTs_def synced_put keyed_get [OF synced_keyed])

lemma synced_updateProgressMessageTs: "synced s \<Longrightarrow> synced (updateProgressMessageTs j h s)"
  by (cases "get s j") (simp_all add: updateProgressMessageTs_def synced_put keyed_get [OF synced_keyed])

lemma synced_clearProgressMessageTs: "synced s \<Longrightarrow> synced (clearProgressMessageTs j s)"
  by (cases "get s j") (simp_all add: clearProgressMessageTs_def synced_put keyed_get [OF synced_keyed])

lemmas synced_simps = synced_create synced_updateStatus synced_updateThreadTs
  synced_updateProgressMessageTs synced_clearProgressMessageTs

lemma synced_clearForPrompt:
  "synced (store sys) \<Longrightarrow> synced (store (clearForPrompt k iv sys))"
  by (simp add: clearForPrompt_def synced_simps)

lemma synced_ensureThread:
  assumes "synced (store sys)"
  shows "synced (store (snd (ensureThread k chan titleOverride cwdHint m pres now sys)))"
proof (cases rule: ensureThread_cases [of sys k chan titleOverride cwdHint m pres now])
  case (existing st)
  with assms show ?thesis by simp
next
  case failed
  with assms show ?thesis by simp
next
  case created
  with assms show ?thesis
    by (cases "get (store sys) k") (simp_all add: synced_simps)
qed





lemma synced_cmd_update:
  assumes "synced (store sys)"
  shows "synced (store (snd (cmd_update k iv pres rres now0 now sys)))"
proof -
  obtain r sys2 where e: "ensureThread k (cli_channel iv (slack sys)) (o_title iv) (o_cwd iv)
      (cli_mention ''update'' iv) pres now0 (clearForPrompt k iv sys) = (r, sys2)"
    by (cases "ensureThread k (cli_channel iv (slack sys)) (o_title iv) (o_cwd iv)
      (cli_mention ''update'' iv) pres now0 (clearForPrompt k iv sys)")
  from assms have "synced (store (clearForPrompt k iv sys))" by (rule synced_clearForPrompt)
  from synced_ensureThread [OF this, of k "cli_channel iv (slack sys)" "o_title iv" "o_cwd iv"
      "cli_mention ''update'' iv" pres now0] e
  have "synced (store sys2)" by simp
  with assms show ?thesis
    by (cases r) (simp_all add: cmd_update_unfold [OF e] Let_def synced_simps synced_clearForPrompt)
qed


lemma store_restart: "synced (store sys) \<Longrightarrow> store (restart sys) = store sys"
  by (simp add: restart_def newSystem_def synced_def)

lemma sent_restart [simp]: "sent (slack (restart sys)) = []"
  by (simp add: restart_def newSystem_def)

lemma store_newSystem [simp]: "store (newSystem path fsys dch) = ThreadStore_new path fsys"
  by (simp add: newSystem_def)

lemma sent_newSystem [simp]: "sent (slack (newSystem path fsys dch)) = []"
  by (simp add: newSystem_def)

lemma newCalls_fresh: "sent (slack sys) = [] \<Longrightarrow> newCalls sys sys' = sent (slack sys')"
  by (simp add: newCalls_def)

lemma afterCliStart_eval:
  "afterCliStart =
     \<lparr>store = \<lparr>threads = [(''j1'', \<lparr>jobId = ''j1'', channel = ''C0'', threadTs = ''100.1'',
                   title = ''Deploy'', status = Started, createdAt = ''t0'', updatedAt = ''t0'',
                   permalink = Some ''https://slack.example/100.1'', progressMessageTs = None\<rparr>)],
               persistPath = Some ''state.json'',
               fs = (\<lambda>_. None)(''state.json'' \<mapsto>
                      Json [\<lparr>jobId = ''j1'', channel = ''C0'', threadTs = ''100.1'',
                   title = ''Deploy'', status = Started, createdAt = ''t0'', updatedAt = ''t0'',
                   permalink = Some ''https://slack.example/100.1'', progressMessageTs = None\<rparr>])\<rparr>,
      slack = \<lparr>defaultChannel = ''C0'', waitingNotifications = [],
               sent = [ParentMessage ''C0'' ''Deploy'' None True]\<rparr>\<rparr>"
  by (simp add: afterCliStart_def fileCli_def example_defs store_defs client_defs cli_defs Let_def
      loadFromDisk_def)

lemma startedCli_eval:
  "startedCli =
     \<lparr>store = \<lparr>threads = [(''j1'', \<lparr>jobId = ''j1'', channel = ''C0'', threadTs = ''100.1'',
                   title = ''Deploy'', status = Started, createdAt = ''t0'', updatedAt = ''t0'',
                   permalink = Some ''https://slack.example/100.1'', progressMessageTs = None\<rparr>)],
               persistPath = Some ''state.json'',
               fs = (\<lambda>_. None)(''state.json'' \<mapsto>
                      Json [\<lparr>jobId = ''j1'', channel = ''C0'', threadTs = ''100.1'',
                   title = ''Deploy'', status = Started, createdAt = ''t0'', updatedAt = ''t0'',
                   permalink = Some ''https://slack.example/100.1'', progressMessageTs = None\<rparr>])\<rparr>,
      slack = \<lparr>defaultChannel = ''C0'', waitingNotifications = [], sent = []\<rparr>\<rparr>"
  by (simp add: startedCli_def afterCliStart_eval restart_def newSystem_def ThreadStore_new_def
      loadFromDisk_def)


section \<open>Coalescing across processes\<close>

text \<open>
  Claim C3 (upsert coalescing), as amended. Let a state path be configured, and take
  two consecutive invocations of \<open>update\<close> on the command line, the second in a new process
  that starts from the file the first has left. Let the job be not terminal and without a
  coalescable progress handle when the first starts, let both invocations request upsert
  (neither from a \<open>Stop\<close> event nor with a message generated from a prompt), each with a
  message, and let the platform answer every call with success and a handle, where the
  job has a thread or its lazily posted anchor succeeds. Then the first process posts
  exactly one new reply (besides the anchor, if the thread had to be created), the second
  process sends exactly one request, an in-place edit of that reply, into the same thread,
  and afterwards the ledger's progress handle is the handle returned by the edit.
\<close>

theorem upsert_coalescing:
  assumes cli: "sys = newSystem path fsys dch" and path: "truthy path"
    and nt: "\<not> isTerminal (store sys) j"
    and np: "getProgressMessageTs (store sys) j = None"
    and th: "truthy (map_option threadTs (get (store sys) j)) \<or> (p_ok pres1 \<and> p_ts pres1 \<noteq> [])"
    and u1: "upsertRequested iv1" and m1: "truthy (updateMessage iv1)"
    and u2: "upsertRequested iv2" and m2: "truthy (updateMessage iv2)"
    and r1: "r_ok rres1" "r_ts rres1 = Some h1" "h1 \<noteq> []"
    and r2: "r_ok rres2" "r_ts rres2 = Some h2" "h2 \<noteq> []"
    and s1: "s1 = snd (cmd_update j iv1 pres1 rres1 t0 t1 sys)"
    and s2: "s2 = snd (cmd_update j iv2 pres2 rres2 t2 t3 (restart s1))"
  shows "filter (\<lambda>c. \<not> is_parent c) (sent (slack s1))
           = [ThreadReply (if truthy (map_option threadTs (get (store sys) j))
                           then channel (the (get (store sys) j)) else p_channel pres1)
                (threadTs (the (get (store s1) j))) (the (updateMessage iv1))
                (levelOf (o_level iv1)) (cli_mention ''update'' iv1)]
       \<and> sent (slack s2)
           = [EditReply (channel (the (get (store s1) j))) (threadTs (the (get (store s1) j)))
                (the (updateMessage iv2)) (levelOf (o_level iv2)) (cli_mention ''update'' iv2) h1]
       \<and> getProgressMessageTs (store s2) j = Some h2"
proof -
  from first_update [OF nt np th u1 m1 r1 s1]
  obtain st1 where g1: "get (store s1) j = Some st1" and t1: "threadTs st1 \<noteq> []"
    and i1: "status st1 = InProgress" and p1: "progressMessageTs st1 = Some h1"
    and c1: "filter (\<lambda>c. \<not> is_parent c) (newCalls sys s1)
               = [ThreadReply (if truthy (map_option threadTs (get (store sys) j))
                               then channel (the (get (store sys) j)) else p_channel pres1)
                    (threadTs st1) (the (updateMessage iv1))
                    (levelOf (o_level iv1)) (cli_mention ''update'' iv1)]"
    by blast
  have "synced (store sys)" by (simp add: cli synced_new [OF path])
  then have "synced (store s1)" unfolding s1 by (rule synced_cmd_update)
  then have g1': "get (store (restart s1)) j = Some st1" by (simp add: store_restart g1)
  have n1: "newCalls sys s1 = sent (slack s1)" by (rule newCalls_fresh) (simp add: cli)
  have n2: "newCalls (restart s1) s2 = sent (slack s2)" by (rule newCalls_fresh) simp
  from second_update [OF g1' t1 i1 p1 u2 m2 r2, of pres2 t2 t3]
  have "sent (slack s2) = [EditReply (channel st1) (threadTs st1) (the (updateMessage iv2))
                (levelOf (o_level iv2)) (cli_mention ''update'' iv2) h1]
       \<and> getProgressMessageTs (store s2) j = Some h2"
    by (simp add: s2 [symmetric] n2)
  with c1 g1 show ?thesis by (simp add: n1)
qed

lemma first_upsert_eval:
  "snd (cmd_update ''j1'' (upsertOptions ''building'') failedPost (okReply ''100.2'') ''t1'' ''t1''
          startedCli) =
     \<lparr>store = \<lparr>threads = [(''j1'', \<lparr>jobId = ''j1'', channel = ''C0'', threadTs = ''100.1'',
                   title = ''Deploy'', status = InProgress, createdAt = ''t0'', updatedAt = ''t1'',
                   permalink = Some ''https://slack.example/100.1'',
                   progressMessageTs = Some ''100.2''\<rparr>)],
               persistPath = Some ''state.json'',
               fs = (\<lambda>_. None)(''state.json'' \<mapsto>
                      Json [\<lparr>jobId = ''j1'', channel = ''C0'', threadTs = ''100.1'',
                   title = ''Deploy'', status = InProgress, createdAt = ''t0'', updatedAt = ''t1'',
                   permalink = Some ''https://slack.example/100.1'',
                   progressMessageTs = Some ''100.2''\<rparr>])\<rparr>,
      slack = \<lparr>defaultChannel = ''C0'', waitingNotifications = [],
               sent = [ThreadReply ''C0'' ''100.1'' ''building'' Info True]\<rparr>\<rparr>"
  by (simp add: startedCli_eval upsertOptions_def okReply_def noOptions_def store_defs
      client_defs cli_defs Let_def)

theorem upsert_coalescing_witness:
  "startedCli = newSystem (Some ''state.json'') (fs (store afterCliStart)) ''C0''
   \<and> truthy (Some ''state.json'')
   \<and> \<not> isTerminal (store startedCli) ''j1''
   \<and> getProgressMessageTs (store startedCli) ''j1'' = None
   \<and> truthy (map_option threadTs (get (store startedCli) ''j1''))
   \<and> upsertRequested (upsertOptions ''building'') \<and> truthy (updateMessage (upsertOptions ''building''))
   \<and> upsertRequested (upsertOptions ''still building'')
   \<and> truthy (updateMessage (upsertOptions ''still building''))
   \<and> r_ok (okReply ''100.2'') \<and> r_ts (okReply ''100.2'') = Some ''100.2''
   \<and> sent (slack (snd (cmd_update ''j1'' (upsertOptions ''building'') failedPost (okReply ''100.2'')
                         ''t1'' ''t1'' startedCli)))
       = [ThreadReply ''C0'' ''100.1'' ''building'' Info True]
   \<and> sent (slack (snd (cmd_update ''j1'' (upsertOptions ''still building'') failedPost
                         (okReply ''100.2'') ''t2'' ''t2''
                (restart (snd (cmd_update ''j1'' (upsertOptions ''building'') failedPost
                                 (okReply ''100.2'') ''t1'' ''t1'' startedCli))))))
       = [EditReply ''C0'' ''100.1'' ''still building'' Info True ''100.2'']
   \<and> getProgressMessageTs
        (store (snd (cmd_update ''j1'' (upsertOptions ''still building'') failedPost
                       (okReply ''100.2'') ''t2'' ''t2''
                       (restart (snd (cmd_update ''j1'' (upsertOptions ''building'') failedPost
                               (okReply ''100.2'') ''t1'' ''t1'' startedCli)))))) ''j1''
       = Some ''100.2''"
proof -
  let ?s1 = "snd (cmd_update ''j1'' (upsertOptions ''building'') failedPost (okReply ''100.2'')
                    ''t1'' ''t1'' startedCli)"
  let ?s2 = "snd (cmd_update ''j1'' (upsertOptions ''still building'') failedPost
                    (okReply ''100.2'') ''t2'' ''t2'' (restart ?s1))"
  have c: "startedCli = newSystem (Some ''state.json'') (fs (store afterCliStart)) ''C0''"
    by (simp add: startedCli_def restart_def afterCliStart_eval)
  have t: "truthy (Some ''state.json'')" by simp
  have h1: "\<not> isTerminal (store startedCli) ''j1''"
    and h2: "getProgressMessageTs (store startedCli) ''j1'' = None"
    and h3: "truthy (map_option threadTs (get (store startedCli) ''j1''))"
    by (simp_all add: startedCli_eval isTerminal_def getProgressMessageTs_def get_def)
  have h4: "upsertRequested (upsertOptions m)" and h5: "truthy (updateMessage (upsertOptions m)) = (m \<noteq> [])" for m
    by (simp_all add: upsertRequested_def upsertOptions_def noOptions_def cli_defs)
  have h6: "r_ok (okReply ''100.2'')" "r_ts (okReply ''100.2'') = Some ''100.2''" "''100.2'' \<noteq> []"
    by (simp_all add: okReply_def)
  have m1: "truthy (updateMessage (upsertOptions ''building''))"
    and m2: "truthy (updateMessage (upsertOptions ''still building''))"
    by (simp_all add: h5)
  have msg: "the (updateMessage (upsertOptions m)) = m" "levelOf (o_level (upsertOptions m)) = Info"
    "cli_mention ''update'' (upsertOptions m) = True" for m
    by (simp_all add: upsertOptions_def noOptions_def cli_defs)
  note T = upsert_coalescing [OF c t h1 h2 disjI1 [OF h3] h4 m1 h4 m2 h6 h6 refl refl,
      where ?pres1.0 = failedPost and ?pres2.0 = failedPost and ?t0.0 = "''t1''" and ?t1.0 = "''t1''"
        and ?t2.0 = "''t2''" and ?t3.0 = "''t2''"]
  have g0: "get (store startedCli) ''j1'' = Some \<lparr>jobId = ''j1'', channel = ''C0'', threadTs = ''100.1'',
                   title = ''Deploy'', status = Started, createdAt = ''t0'', updatedAt = ''t0'',
                   permalink = Some ''https://slack.example/100.1'', progressMessageTs = None\<rparr>"
    by (simp add: startedCli_eval get_def)
  have g1: "get (store ?s1) ''j1'' = Some \<lparr>jobId = ''j1'', channel = ''C0'', threadTs = ''100.1'',
                   title = ''Deploy'', status = InProgress, createdAt = ''t0'', updatedAt = ''t1'',
                   permalink = Some ''https://slack.example/100.1'',
                   progressMessageTs = Some ''100.2''\<rparr>"
    by (simp add: first_upsert_eval get_def)
  have n1: "sent (slack ?s1) = [ThreadReply ''C0'' ''100.1'' ''building'' Info True]"
    unfolding first_upsert_eval by simp
  from T have "sent (slack ?s2) = [EditReply ''C0'' ''100.1'' ''still building'' Info True ''100.2'']
      \<and> getProgressMessageTs (store ?s2) ''j1'' = Some ''100.2''"
    by (simp add: g1 msg)
  with n1 c t h1 h2 h3 h4 m1 m2 h6 show ?thesis by simp
qed

text \<open>
  Claim C3 as stated fails in two ways, both with the platform answering every call with
  success. With a state file, two consecutive updates of a \<open>Stop\<close> event with
  \<open>--upsert=true\<close> each post a new reply, nothing is edited, and the progress handle is
  cleared. Without a configured state path the second process knows nothing of the first:
  each of two consecutive updates with \<open>--upsert=true\<close> posts a new anchor message and a
  new reply, and nothing is edited.
\<close>

theorem update_not_coalesced_counterexample:
  "getProgressMessageTs (store startedCli) ''j1'' = None
   \<and> sent (slack (snd (cmd_update ''j1'' (stopOptions ''almost done'') failedPost (okReply ''100.2'')
                         ''t1'' ''t1'' startedCli)))
       = [ThreadReply ''C0'' ''100.1'' ''almost done'' Info True]
   \<and> sent (slack (snd (cmd_update ''j1'' (stopOptions ''done'') failedPost (okReply ''100.3'')
                         ''t2'' ''t2''
                (restart (snd (cmd_update ''j1'' (stopOptions ''almost done'') failedPost
                                 (okReply ''100.2'') ''t1'' ''t1'' startedCli))))))
       = [ThreadReply ''C0'' ''100.1'' ''done'' Info True]
   \<and> getProgressMessageTs
        (store (snd (cmd_update ''j1'' (stopOptions ''done'') failedPost (okReply ''100.3'')
                       ''t2'' ''t2''
                (restart (snd (cmd_update ''j1'' (stopOptions ''almost done'') failedPost
                                 (okReply ''100.2'') ''t1'' ''t1'' startedCli)))))) ''j1'' = None
   \<and> getProgressMessageTs (store exampleSystem) ''j1'' = None
   \<and> sent (slack (snd (cmd_update ''j1'' (upsertOptions ''building'') (okPost ''C0'' ''100.1'')
                         (okReply ''100.2'') ''t0'' ''t1'' exampleSystem)))
       = [ParentMessage ''C0'' ''Claude Code Task'' None True,
          ThreadReply ''C0'' ''100.1'' ''building'' Info True]
   \<and> sent (slack (snd (cmd_update ''j1'' (upsertOptions ''still building'') (okPost ''C0'' ''200.1'')
                         (okReply ''200.2'') ''t2'' ''t3''
                (restart (snd (cmd_update ''j1'' (upsertOptions ''building'') (okPost ''C0'' ''100.1'')
                                 (okReply ''100.2'') ''t0'' ''t1'' exampleSystem))))))
       = [ParentMessage ''C0'' ''Claude Code Task'' None True,
          ThreadReply ''C0'' ''200.1'' ''still building'' Info True]"
  by (simp add: startedCli_eval restart_def stopOptions_def upsertOptions_def example_defs
      store_defs client_defs cli_defs Let_def loadFromDisk_def fallbackTitle_def)


section \<open>Idempotency of start\<close>

text \<open>
  No request changes the channel, the thread handle or the permalink of a job that is
  held with a thread.
\<close>

lemma anchored_updateStatus [simp]:
  "anchored (snd (updateStatus k stat now s)) j ch ts pl = anchored s j ch ts pl"
  by (cases "get s k") (auto simp add: anchored_def get_updateStatus split: option.split)

lemma anchored_updateProgressMessageTs [simp]:
  "anchored (updateProgressMessageTs k h s) j ch ts pl = anchored s j ch ts pl"
  by (cases "get s k") (auto simp add: anchored_def get_updateProgressMessageTs split: option.split)

lemma anchored_clearProgressMessageTs [simp]:
  "anchored (clearProgressMessageTs k s) j ch ts pl = anchored s j ch ts pl"
  by (cases "get s k") (auto simp add: anchored_def get_clearProgressMessageTs split: option.split)



lemma anchored_clearForPrompt [simp]:
  "anchored (store (clearForPrompt k iv sys)) j ch ts pl = anchored (store sys) j ch ts pl"
  by (simp add: clearForPrompt_def)






















end
